theory Spec2Isabelle
  imports Main "HOL-Library.Word" "HOL-Library.Sublist"
begin

unbundle bit_operations_syntax

section \<open>Values of the interpreter: text, bytes, exceptions\<close>

text \<open>
  A Python \<open>str\<close> is a sequence of Unicode code points and a \<open>bytes\<close> object is a sequence
  of octets. Slicing \<open>s[:n]\<close> is \<open>take n\<close>, \<open>s[n:]\<close> is \<open>drop n\<close>, \<open>a in b\<close> on
  text is \<open>sublist a b\<close>, and \<open>len\<close> is \<open>length\<close>.
\<close>

type_synonym pystr = "nat list"
type_synonym byte = "8 word"
type_synonym pybytes = "byte list"

definition lit :: "string \<Rightarrow> pystr" where
  "lit s = map of_char s"

text \<open>
  The exception classes the handlers of \<open>checks.py\<close> and \<open>app.py\<close> tell apart. Every
  class here derives from \<open>Exception\<close>; \<open>KeyboardInterrupt\<close> and \<open>SystemExit\<close> do not
  and are outside the model. An exception carries what \<open>str(e)\<close> gives.
\<close>

datatype exc_class =
    SocketTimeout | ConnectionRefusedError | OSError | EOFError
  | FtpErrorPerm | FtpError | SMTPException
  | ValueError | UnicodeEncodeError | OverflowError | OtherException

datatype pyexc = PyExc exc_class pystr

fun exc_cls :: "pyexc \<Rightarrow> exc_class" where
  "exc_cls (PyExc c m) = c"

fun exc_str :: "pyexc \<Rightarrow> pystr" where
  "exc_str (PyExc c m) = m"

text \<open>\<open>socket.timeout\<close>, \<open>ConnectionRefusedError\<close> and \<open>smtplib.SMTPException\<close> are
  subclasses of \<open>OSError\<close>.\<close>

fun is_OSError :: "exc_class \<Rightarrow> bool" where
  "is_OSError SocketTimeout = True"
| "is_OSError ConnectionRefusedError = True"
| "is_OSError OSError = True"
| "is_OSError SMTPException = True"
| "is_OSError _ = False"

text \<open>\<open>ftplib.all_errors = (Error, OSError, EOFError)\<close>; \<open>error_perm\<close> derives from
  \<open>Error\<close>.\<close>

definition is_ftp_all_errors :: "exc_class \<Rightarrow> bool" where
  "is_ftp_all_errors c \<longleftrightarrow> c = FtpErrorPerm \<or> c = FtpError \<or> is_OSError c \<or> c = EOFError"

text \<open>A check returns the pair \<open>(up, message)\<close>.\<close>

type_synonym verdict = "bool \<times> pystr"

subsection \<open>Formatting integers\<close>

function dec_nat :: "nat \<Rightarrow> pystr" where
  "dec_nat n = (if n < 10 then [48 + n] else dec_nat (n div 10) @ [48 + n mod 10])"
  by pat_completeness auto
termination
  by (relation "measure id") auto

declare dec_nat.simps [simp del]

text \<open>\<open>str(n)\<close> for an \<open>int\<close>.\<close>

definition str_int :: "int \<Rightarrow> pystr" where
  "str_int i = (if i < 0 then 45 # dec_nat (nat (- i)) else dec_nat (nat i))"

definition hex_digit :: "nat \<Rightarrow> nat" where
  "hex_digit d = (if d < 10 then 48 + d else 87 + d)"

text \<open>The format \<open>{b:02x}\<close> of a byte value: two lower-case hexadecimal digits.\<close>

definition hex02 :: "byte \<Rightarrow> pystr" where
  "hex02 b = [hex_digit (unat b div 16), hex_digit (unat b mod 16)]"

subsection \<open>Decoding bytes with \<open>errors="replace"\<close>\<close>

definition REPLACEMENT :: nat where
  "REPLACEMENT = 0xFFFD"

text \<open>\<open>bytes.decode("ascii", errors="replace")\<close>: every octet above 127 becomes U+FFFD.\<close>

definition decode_ascii_replace :: "pybytes \<Rightarrow> pystr" where
  "decode_ascii_replace bs = map (\<lambda>b. if unat b < 128 then unat b else REPLACEMENT) bs"

definition is_cont :: "nat \<Rightarrow> bool" where
  "is_cont b \<longleftrightarrow> 0x80 \<le> b \<and> b < 0xC0"

text \<open>
  One step of the UTF-8 decoder of the interpreter on a non-empty input: the code point
  produced and the number of octets consumed beyond the first. An ill-formed or truncated
  sequence gives U+FFFD for its maximal ill-formed prefix (an invalid start byte: one octet;
  an invalid continuation: the octets before it; a sequence cut off by the end of the data:
  all that is left).
\<close>

definition utf8_step :: "nat \<Rightarrow> nat list \<Rightarrow> nat \<times> nat" where
  "utf8_step b0 r =
    (if b0 < 0x80 then (b0, 0)
     else if b0 < 0xC2 then (REPLACEMENT, 0)
     else if b0 < 0xE0 then
       (case r of
          [] \<Rightarrow> (REPLACEMENT, 0)
        | b1 # _ \<Rightarrow>
            if \<not> is_cont b1 then (REPLACEMENT, 0)
            else ((b0 mod 0x20) * 0x40 + b1 mod 0x40, 1))
     else if b0 < 0xF0 then
       (case r of
          [] \<Rightarrow> (REPLACEMENT, 0)
        | b1 # r1 \<Rightarrow>
            if \<not> is_cont b1 \<or> (b0 = 0xE0 \<and> b1 < 0xA0) \<or> (b0 = 0xED \<and> 0xA0 \<le> b1)
            then (REPLACEMENT, 0)
            else (case r1 of
              [] \<Rightarrow> (REPLACEMENT, 1)
            | b2 # _ \<Rightarrow>
                if \<not> is_cont b2 then (REPLACEMENT, 1)
                else ((b0 mod 0x10) * 0x1000 + (b1 mod 0x40) * 0x40 + b2 mod 0x40, 2)))
     else if b0 < 0xF5 then
       (case r of
          [] \<Rightarrow> (REPLACEMENT, 0)
        | b1 # r1 \<Rightarrow>
            if \<not> is_cont b1 \<or> (b0 = 0xF0 \<and> b1 < 0x90) \<or> (b0 = 0xF4 \<and> 0x90 \<le> b1)
            then (REPLACEMENT, 0)
            else (case r1 of
              [] \<Rightarrow> (REPLACEMENT, 1)
            | b2 # r2 \<Rightarrow>
                if \<not> is_cont b2 then (REPLACEMENT, 1)
                else (case r2 of
                  [] \<Rightarrow> (REPLACEMENT, 2)
                | b3 # _ \<Rightarrow>
                    if \<not> is_cont b3 then (REPLACEMENT, 2)
                    else ((b0 mod 0x08) * 0x40000 + (b1 mod 0x40) * 0x1000
                          + (b2 mod 0x40) * 0x40 + b3 mod 0x40, 3))))
     else (REPLACEMENT, 0))"

function utf8_replace :: "nat list \<Rightarrow> pystr" where
  "utf8_replace [] = []"
| "utf8_replace (b0 # r) =
     (case utf8_step b0 r of (c, k) \<Rightarrow> c # utf8_replace (drop k r))"
  by pat_completeness auto
termination
  by (relation "measure length") auto

text \<open>\<open>bytes.decode("utf-8", errors="replace")\<close>.\<close>

definition decode_utf8_replace :: "pybytes \<Rightarrow> pystr" where
  "decode_utf8_replace bs = utf8_replace (map unat bs)"

text \<open>\<open>str.strip()\<close> removes the leading and trailing characters that the interpreter
  counts as white space.\<close>

definition is_space :: "nat \<Rightarrow> bool" where
  "is_space c \<longleftrightarrow>
     (0x09 \<le> c \<and> c \<le> 0x0D) \<or> (0x1C \<le> c \<and> c \<le> 0x20) \<or> c = 0x85 \<or> c = 0xA0
     \<or> c = 0x1680 \<or> (0x2000 \<le> c \<and> c \<le> 0x200A) \<or> c = 0x2028 \<or> c = 0x2029
     \<or> c = 0x202F \<or> c = 0x205F \<or> c = 0x3000"

definition strip :: "pystr \<Rightarrow> pystr" where
  "strip s = rev (dropWhile is_space (rev (dropWhile is_space s)))"

subsection \<open>Searching bytes\<close>

text \<open>\<open>data.index(b, start)\<close> for a single octet \<open>b\<close> and \<open>start \<le> len(data)\<close>: the first
  position at or after \<open>start\<close> that holds \<open>b\<close>, or \<open>ValueError\<close>.\<close>

fun index_loop :: "byte \<Rightarrow> pybytes \<Rightarrow> nat \<Rightarrow> nat option" where
  "index_loop b [] i = None"
| "index_loop b (x # xs) i = (if x = b then Some i else index_loop b xs (Suc i))"

definition bytes_index :: "pybytes \<Rightarrow> byte \<Rightarrow> nat \<Rightarrow> pyexc + nat" where
  "bytes_index data b start =
     (case index_loop b (drop start data) start of
        None \<Rightarrow> Inl (PyExc ValueError (lit ''subsection not found''))
      | Some i \<Rightarrow> Inr i)"

text \<open>The slice \<open>xs[lo:hi]\<close> for \<open>0 \<le> lo\<close> and \<open>0 \<le> hi\<close>.\<close>

definition slice :: "'a list \<Rightarrow> nat \<Rightarrow> nat \<Rightarrow> 'a list" where
  "slice xs lo hi = take (hi - lo) (drop lo xs)"

section \<open>The network as the checks see it\<close>

text \<open>
  A TCP connection attempt (\<open>_tcp_connect\<close>) either raises or gives a socket; \<open>recv n\<close>
  on the socket either raises or returns what arrived.
\<close>

datatype tcp_outcome = ConnectRaises pyexc | Connected "nat \<Rightarrow> pyexc + pybytes"


text \<open>What \<open>urllib.request.urlopen\<close> does with a URL: it returns a response (its status and
  what \<open>read n\<close> gives), or raises \<open>HTTPError\<close> (code, reason), \<open>URLError\<close> (reason), or
  something else.\<close>

datatype http_outcome =
    HttpResponse int "nat \<Rightarrow> pyexc + pybytes"
  | RaisesHTTPError int pystr
  | RaisesURLError pystr
  | HttpRaises pyexc

text \<open>An FTP session: what \<open>connect\<close> raises, the welcome line, what \<open>login\<close> raises, and
  what the n-th call of \<open>quit\<close> raises.\<close>

record ftp_session =
  ftp_connect :: "pyexc option"
  ftp_welcome :: pystr
  ftp_login :: "pyexc option"
  ftp_quit :: "nat \<Rightarrow> pyexc option"

text \<open>An SMTP session: \<open>connect\<close> and \<open>ehlo\<close> each return the reply (code, text) or raise;
  leaving the \<open>with\<close> block may raise as well.\<close>

record smtp_session =
  smtp_connect :: "pyexc + (int \<times> pybytes)"
  smtp_ehlo :: "pyexc + (int \<times> pybytes)"
  smtp_exit :: "pyexc option"

text \<open>
  Everything outside the program that one round of checks depends on. \<open>udp_exchange\<close> is
  the datagram sent to an address (packet, host, port) and the outcome of waiting for the
  answer; \<open>dns_resolve\<close> is the resolver library asked at a name server for a name;
  \<open>format_list\<close> is how the interpreter prints a list of \<open>str\<close>.
\<close>

record env =
  has_dnspython :: bool
  tcp_connect :: "pystr \<Rightarrow> int \<Rightarrow> tcp_outcome"
  urlopen :: "pystr \<Rightarrow> http_outcome"
  ftp_open :: "pystr \<Rightarrow> int \<Rightarrow> ftp_session"
  smtp_open :: "pystr \<Rightarrow> int \<Rightarrow> smtp_session"
  dns_resolve :: "pystr \<Rightarrow> pystr \<Rightarrow> pyexc + pystr list"
  udp_exchange :: "pybytes \<Rightarrow> pystr \<Rightarrow> int \<Rightarrow> pyexc + pybytes"
  format_list :: "pystr list \<Rightarrow> pystr"

section \<open>Service definitions (\<open>config.py\<close>)\<close>

text \<open>A service definition is a dictionary with the keys below; the last three are present
  only for some check types (\<open>service.get\<close> gives \<open>None\<close> otherwise).\<close>

record service =
  svc_id :: pystr
  name :: pystr
  machine :: pystr
  host :: pystr
  port :: int
  points :: int
  check_type :: pystr
  banner_expect :: "pystr option"
  dns_query :: "pystr option"
  dns_expected_ip :: "pystr option"

section \<open>The checks (\<open>checks.py\<close>)\<close>

text \<open>The handlers shared by \<open>check_banner\<close> and \<open>check_mysql\<close>:
  \<open>socket.timeout\<close>, \<open>ConnectionRefusedError\<close>, then \<open>Exception\<close>.\<close>

definition socket_handlers :: "pyexc \<Rightarrow> verdict" where
  "socket_handlers e =
     (if exc_cls e = SocketTimeout then (False, lit ''Connection timed out'')
      else if exc_cls e = ConnectionRefusedError then (False, lit ''Connection refused'')
      else (False, exc_str e))"

text \<open>\<open>check_tcp\<close> catches \<open>OSError\<close> last, so any other exception leaves it.\<close>

definition check_tcp :: "env \<Rightarrow> pystr \<Rightarrow> int \<Rightarrow> pyexc + verdict" where
  "check_tcp E h p =
     (case tcp_connect E h p of
        Connected s \<Rightarrow> Inr (True, lit ''Port open'')
      | ConnectRaises e \<Rightarrow>
          if exc_cls e = SocketTimeout then Inr (False, lit ''Connection timed out'')
          else if exc_cls e = ConnectionRefusedError then Inr (False, lit ''Connection refused'')
          else if is_OSError (exc_cls e) then Inr (False, exc_str e)
          else Inl e)"

definition check_http :: "env \<Rightarrow> pystr \<Rightarrow> int \<Rightarrow> verdict" where
  "check_http E h p =
     (let url = lit ''http://'' @ h @ lit '':'' @ str_int p @ lit ''/'' in
      case urlopen E url of
        HttpResponse status rd \<Rightarrow>
          (case rd 512 of
             Inl e \<Rightarrow> (False, exc_str e)
           | Inr body \<Rightarrow>
               if status = 200 \<and> length body > 0
               then (True, lit ''HTTP 200 OK ('' @ str_int (int (length body)) @ lit ''+ bytes)'')
               else (False, lit ''HTTP '' @ str_int status @ [32, 0x2014, 32]
                            @ lit ''unexpected response''))
      | RaisesHTTPError code reason \<Rightarrow>
          (False, lit ''HTTP '' @ str_int code @ lit '': '' @ reason)
      | RaisesURLError reason \<Rightarrow> (False, lit ''URL error: '' @ reason)
      | HttpRaises e \<Rightarrow> (False, exc_str e))"

definition ftp_handlers :: "pyexc \<Rightarrow> verdict" where
  "ftp_handlers e =
     (if is_ftp_all_errors (exc_cls e) then (False, lit ''FTP error: '' @ exc_str e)
      else (False, exc_str e))"

definition ftp_denied :: "ftp_session \<Rightarrow> nat \<Rightarrow> verdict" where
  "ftp_denied f n =
     (case ftp_quit f n of
        Some e \<Rightarrow> ftp_handlers e
      | None \<Rightarrow> (True, lit ''Service UP (anonymous denied) | '' @ take 60 (ftp_welcome f)))"

definition check_ftp :: "env \<Rightarrow> pystr \<Rightarrow> int \<Rightarrow> verdict" where
  "check_ftp E h p =
     (let f = ftp_open E h p in
      case ftp_connect f of
        Some e \<Rightarrow> ftp_handlers e
      | None \<Rightarrow>
         (case ftp_login f of
            Some e \<Rightarrow> if exc_cls e = FtpErrorPerm then ftp_denied f 0 else ftp_handlers e
          | None \<Rightarrow>
             (case ftp_quit f 0 of
                Some e \<Rightarrow> if exc_cls e = FtpErrorPerm then ftp_denied f 1 else ftp_handlers e
              | None \<Rightarrow> (True, lit ''Anonymous login OK | '' @ take 60 (ftp_welcome f)))))"

definition smtp_handlers :: "pyexc \<Rightarrow> verdict" where
  "smtp_handlers e =
     (if exc_cls e = SMTPException then (False, lit ''SMTP error: '' @ exc_str e)
      else (False, exc_str e))"

text \<open>The body of the \<open>with\<close> block of \<open>check_smtp\<close>: the value it returns, or the
  exception it raises. The reply of \<open>ehlo\<close> is not looked at.\<close>

definition smtp_body :: "smtp_session \<Rightarrow> pyexc + verdict" where
  "smtp_body s =
     (case smtp_connect s of
        Inl e \<Rightarrow> Inl e
      | Inr (code, banner) \<Rightarrow>
          if code \<noteq> 220 then Inr (False, lit ''Expected 220, got '' @ str_int code)
          else (case smtp_ehlo s of
                  Inl e \<Rightarrow> Inl e
                | Inr reply \<Rightarrow>
                    Inr (True, lit ''EHLO accepted | '' @ take 60 (decode_utf8_replace banner))))"

text \<open>Leaving the \<open>with\<close> block runs the exit of the session; an exception raised there
  replaces the outcome of the body.\<close>

definition check_smtp :: "env \<Rightarrow> pystr \<Rightarrow> int \<Rightarrow> verdict" where
  "check_smtp E h p =
     (let s = smtp_open E h p in
      case smtp_exit s of
        Some e \<Rightarrow> smtp_handlers e
      | None \<Rightarrow> (case smtp_body s of Inl e \<Rightarrow> smtp_handlers e | Inr v \<Rightarrow> v))"

text \<open>\<open>if expected and expected not in banner\<close>: \<open>None\<close> and the empty string both count
  as no expectation.\<close>

definition check_banner :: "env \<Rightarrow> pystr \<Rightarrow> int \<Rightarrow> pystr option \<Rightarrow> verdict" where
  "check_banner E h p expected =
     (case tcp_connect E h p of
        ConnectRaises e \<Rightarrow> socket_handlers e
      | Connected s \<Rightarrow>
         (case s 1024 of
            Inl e \<Rightarrow> socket_handlers e
          | Inr raw \<Rightarrow>
             (let banner = strip (decode_utf8_replace raw) in
              case expected of
                None \<Rightarrow> (True, lit ''Banner: '' @ take 80 banner)
              | Some ex \<Rightarrow>
                  if ex \<noteq> [] \<and> \<not> sublist ex banner
                  then (False, lit ''Banner missing '' @ [39] @ ex @ [39] @ lit '': ''
                               @ take 80 banner)
                  else (True, lit ''Banner: '' @ take 80 banner))))"

definition check_mysql :: "env \<Rightarrow> pystr \<Rightarrow> int \<Rightarrow> verdict" where
  "check_mysql E h p =
     (case tcp_connect E h p of
        ConnectRaises e \<Rightarrow> socket_handlers e
      | Connected s \<Rightarrow>
         (case s 256 of
            Inl e \<Rightarrow> socket_handlers e
          | Inr data \<Rightarrow>
              if length data < 5 then (False, lit ''Incomplete handshake'')
              else
                (let proto = data ! 4 in
                 if proto = 0x0a then
                   (case bytes_index data 0 5 of
                      Inr null_idx \<Rightarrow>
                        (let version = decode_ascii_replace (slice data 5 null_idx)
                         in (True, lit ''MySQL/MariaDB '' @ version))
                    | Inl e \<Rightarrow> (True, lit ''MySQL handshake OK (version unreadable)''))
                 else if proto = 0xff then
                   (let err_msg = take 60 (decode_utf8_replace (drop 7 data))
                    in (False, lit ''MySQL error: '' @ err_msg))
                 else (True, lit ''DB port open (proto byte=0x'' @ hex02 proto @ lit '')''))))"


subsection \<open>DNS\<close>

text \<open>\<open>sep.join(xs)\<close>.\<close>

fun join :: "pystr \<Rightarrow> pystr list \<Rightarrow> pystr" where
  "join sep [] = []"
| "join sep [x] = x"
| "join sep (x # y # ys) = x @ sep @ join sep (y # ys)"

definition dns_dnspython :: "env \<Rightarrow> pystr \<Rightarrow> pystr \<Rightarrow> pystr option \<Rightarrow> verdict" where
  "dns_dnspython E h query expected_ip =
     (case dns_resolve E h query of
        Inl e \<Rightarrow> (False, lit ''DNS query failed: '' @ exc_str e)
      | Inr ips \<Rightarrow>
         (case expected_ip of
            None \<Rightarrow> (True, lit ''Resolved '' @ query @ [32, 0x2192, 32] @ join (lit '', '') ips)
          | Some ex \<Rightarrow>
              if ex \<noteq> [] \<and> ex \<notin> set ips
              then (False, lit ''Expected '' @ ex @ lit '', got '' @ format_list E ips)
              else (True, lit ''Resolved '' @ query @ [32, 0x2192, 32] @ join (lit '', '') ips)))"

text \<open>\<open>s.split(c)\<close> for a one-character separator.\<close>

fun split_on :: "nat \<Rightarrow> pystr \<Rightarrow> pystr list" where
  "split_on c [] = [[]]"
| "split_on c (x # xs) =
     (if x = c then [] # split_on c xs
      else (case split_on c xs of [] \<Rightarrow> [[x]] | y # ys \<Rightarrow> (x # y) # ys))"

text \<open>\<open>str.encode()\<close>: UTF-8; a surrogate code point raises \<open>UnicodeEncodeError\<close>.
  The code points of a \<open>str\<close> are below \<open>0x110000\<close>.\<close>

definition encode_cp :: "nat \<Rightarrow> pyexc + pybytes" where
  "encode_cp c =
     (if c < 0x80 then Inr [of_nat c]
      else if c < 0x800 then Inr [of_nat (0xC0 + c div 0x40), of_nat (0x80 + c mod 0x40)]
      else if 0xD800 \<le> c \<and> c < 0xE000
        then Inl (PyExc UnicodeEncodeError (lit ''surrogates not allowed''))
      else if c < 0x10000
        then Inr [of_nat (0xE0 + c div 0x1000), of_nat (0x80 + (c div 0x40) mod 0x40),
                  of_nat (0x80 + c mod 0x40)]
      else Inr [of_nat (0xF0 + c div 0x40000), of_nat (0x80 + (c div 0x1000) mod 0x40),
                of_nat (0x80 + (c div 0x40) mod 0x40), of_nat (0x80 + c mod 0x40)])"

fun encode :: "pystr \<Rightarrow> pyexc + pybytes" where
  "encode [] = Inr []"
| "encode (c # cs) =
     (case encode_cp c of
        Inl e \<Rightarrow> Inl e
      | Inr bs \<Rightarrow> (case encode cs of Inl e \<Rightarrow> Inl e | Inr rest \<Rightarrow> Inr (bs @ rest)))"

text \<open>The loop that builds QNAME: each label is written as its length in one octet
  (\<open>bytes([n])\<close> raises \<open>ValueError\<close> from 256 on) and its encoding.\<close>

fun encode_labels :: "pystr list \<Rightarrow> pybytes \<Rightarrow> pyexc + pybytes" where
  "encode_labels [] qname = Inr qname"
| "encode_labels (label # labels) qname =
     (case encode label of
        Inl e \<Rightarrow> Inl e
      | Inr encoded \<Rightarrow>
          if length encoded > 255
          then Inl (PyExc ValueError (lit ''bytes must be in range(0, 256)''))
          else encode_labels labels (qname @ [of_nat (length encoded)] @ encoded))"

definition dns_packet :: "pystr \<Rightarrow> pyexc + pybytes" where
  "dns_packet query =
     (let txn_id = [0xab, 0xcd]; flags = [0x01, 0x00]; qdcount = [0x00, 0x01];
          ancount = [0x00, 0x00]; nscount = [0x00, 0x00]; arcount = [0x00, 0x00];
          header = txn_id @ flags @ qdcount @ ancount @ nscount @ arcount
      in case encode_labels (split_on 46 query) [] of
           Inl e \<Rightarrow> Inl e
         | Inr qname \<Rightarrow>
             (let qname = qname @ [0x00]; qtype = [0x00, 0x01]; qclass = [0x00, 0x01]
              in Inr (header @ qname @ qtype @ qclass)))"

definition dns_handlers :: "pyexc \<Rightarrow> verdict" where
  "dns_handlers e =
     (if exc_cls e = SocketTimeout then (False, lit ''DNS query timed out'')
      else (False, lit ''DNS raw query error: '' @ exc_str e))"

definition dns_raw_udp :: "env \<Rightarrow> pystr \<Rightarrow> pystr \<Rightarrow> pystr option \<Rightarrow> verdict" where
  "dns_raw_udp E h query expected_ip =
     (case dns_packet query of
        Inl e \<Rightarrow> dns_handlers e
      | Inr packet \<Rightarrow>
         (case udp_exchange E packet h 53 of
            Inl e \<Rightarrow> dns_handlers e
          | Inr response \<Rightarrow>
              if length response < 12 then (False, lit ''Short DNS response'')
              else
                (let rcode = (response ! 3) AND 0x0F in
                 if rcode = 0 then (True, lit ''DNS query OK (NOERROR) for '' @ query)
                 else (False, lit ''DNS RCODE '' @ str_int (uint rcode) @ lit '' for ''
                              @ query))))"

definition check_dns :: "env \<Rightarrow> pystr \<Rightarrow> pystr \<Rightarrow> pystr option \<Rightarrow> verdict" where
  "check_dns E h query expected_ip =
     (if has_dnspython E then dns_dnspython E h query expected_ip
      else dns_raw_udp E h query expected_ip)"

subsection \<open>Dispatcher\<close>

definition run_check :: "env \<Rightarrow> service \<Rightarrow> pyexc + verdict" where
  "run_check E service =
     (let ctype = check_type service; h = host service; p = port service in
      if ctype = lit ''tcp'' then check_tcp E h p
      else if ctype = lit ''http'' then Inr (check_http E h p)
      else if ctype = lit ''ftp'' then Inr (check_ftp E h p)
      else if ctype = lit ''smtp'' then Inr (check_smtp E h p)
      else if ctype = lit ''banner'' then Inr (check_banner E h p (banner_expect service))
      else if ctype = lit ''mysql'' then Inr (check_mysql E h p)
      else if ctype = lit ''dns'' then
        Inr (check_dns E h
               (case dns_query service of None \<Rightarrow> lit ''ludus.domain'' | Some q \<Rightarrow> q)
               (dns_expected_ip service))
      else Inr (False, lit ''Unknown check type: '' @ ctype))"


section \<open>The configuration (\<open>config.py\<close>)\<close>

definition BASE_NET :: "int \<Rightarrow> pystr" where
  "BASE_NET RANGE_ID = lit ''10.'' @ str_int RANGE_ID @ lit ''.10''"

definition CHECK_INTERVAL :: int where
  "CHECK_INTERVAL = 60"

definition mk_service ::
  "string \<Rightarrow> string \<Rightarrow> string \<Rightarrow> pystr \<Rightarrow> int \<Rightarrow> int \<Rightarrow> string \<Rightarrow> service" where
  "mk_service i nm m h p pts ct =
     \<lparr>svc_id = lit i, name = lit nm, machine = lit m, host = h, port = p, points = pts,
      check_type = lit ct, banner_expect = None, dns_query = None, dns_expected_ip = None\<rparr>"

definition build_services :: "pystr \<Rightarrow> service list" where
  "build_services n =
     [mk_service ''http'' ''HTTP Web Server'' ''WEB01'' (n @ lit ''.31'') 80 100 ''http'',
      mk_service ''ftp'' ''FTP Server'' ''FTP01'' (n @ lit ''.81'') 21 50 ''ftp'',
      mk_service ''smtp'' ''SMTP (Mail)'' ''MAIL01'' (n @ lit ''.61'') 25 75 ''smtp'',
      (mk_service ''imap'' ''IMAP (Mail)'' ''MAIL01'' (n @ lit ''.61'') 143 50 ''banner'')
        \<lparr>banner_expect := Some (lit ''* OK'')\<rparr>,
      (mk_service ''pop3'' ''POP3 (Mail)'' ''MAIL01'' (n @ lit ''.61'') 110 50 ''banner'')
        \<lparr>banner_expect := Some (lit ''+OK'')\<rparr>,
      (mk_service ''dns'' ''DNS Server'' ''DNS01'' (n @ lit ''.71'') 53 100 ''dns'')
        \<lparr>dns_query := Some (lit ''web.ludus.domain''),
         dns_expected_ip := Some (n @ lit ''.31'')\<rparr>,
      mk_service ''mysql'' ''MySQL Database'' ''DB01'' (n @ lit ''.41'') 3306 75 ''mysql'',
      mk_service ''smb'' ''SMB File Share'' ''FILESVR'' (n @ lit ''.51'') 445 50 ''tcp'',
      mk_service ''ldap'' ''LDAP (Active Directory)'' ''DC01'' (n @ lit ''.11'') 389 100 ''tcp'',
      mk_service ''kerberos'' ''Kerberos (Active Directory)'' ''DC01'' (n @ lit ''.11'') 88 100
        ''tcp'']"

text \<open>\<open>MAX_SCORE_PER_ROUND = sum(s["points"] for s in SERVICES)\<close>, evaluated when the
  module is loaded.\<close>

definition MAX_SCORE_PER_ROUND :: "service list \<Rightarrow> int" where
  "MAX_SCORE_PER_ROUND SERVICES = sum_list (map points SERVICES)"

section \<open>The result log (\<open>database.py\<close>)\<close>

text \<open>One entry of the list \<open>results\<close> that a round builds.\<close>

record result =
  service_id :: pystr
  up :: bool
  points_earned :: int
  message :: pystr

text \<open>The two tables, each in the order of insertion, with the counters that
  \<open>AUTOINCREMENT\<close> keeps for them.\<close>

record round_row =
  row_id :: nat
  timestamp :: pystr
  row_round_score :: int
  max_score :: int

record check_row =
  check_id :: nat
  round_id :: nat
  check_service_id :: pystr
  check_up :: int
  check_points_earned :: int
  check_message :: pystr

record database =
  check_rounds :: "round_row list"
  service_checks :: "check_row list"
  rounds_seq :: nat
  checks_seq :: nat

definition init_db :: "database option \<Rightarrow> database" where
  "init_db file =
     (case file of
        None \<Rightarrow> \<lparr>check_rounds = [], service_checks = [], rounds_seq = 0, checks_seq = 0\<rparr>
      | Some d \<Rightarrow> d)"

fun insert_checks :: "nat \<Rightarrow> result list \<Rightarrow> check_row list \<Rightarrow> nat \<Rightarrow> check_row list \<times> nat"
  where
  "insert_checks rid [] rows seq = (rows, seq)"
| "insert_checks rid (r # rs) rows seq =
     insert_checks rid rs
       (rows @ [\<lparr>check_id = Suc seq, round_id = rid, check_service_id = service_id r,
                 check_up = (if up r then 1 else 0), check_points_earned = points_earned r,
                 check_message = message r\<rparr>])
       (Suc seq)"

text \<open>
  \<open>save_round\<close> writes the round and its checks in one transaction. \<open>fault\<close> is what the
  storage raises, if anything (the transaction is then rolled back); \<open>ts\<close> is the clock.
\<close>

definition save_round ::
  "pyexc option \<Rightarrow> pystr \<Rightarrow> database \<Rightarrow> result list \<Rightarrow> int \<Rightarrow> int \<Rightarrow> pyexc + database" where
  "save_round fault ts d results rscore mscore =
     (case fault of
        Some e \<Rightarrow> Inl e
      | None \<Rightarrow>
         (let rid = Suc (rounds_seq d);
              (rows, seq) = insert_checks rid results (service_checks d) (checks_seq d)
          in Inr \<lparr>check_rounds = check_rounds d @
                     [\<lparr>row_id = rid, timestamp = ts, row_round_score = rscore,
                       max_score = mscore\<rparr>],
                   service_checks = rows, rounds_seq = rid, checks_seq = seq\<rparr>))"

definition get_cumulative_score :: "database \<Rightarrow> int" where
  "get_cumulative_score d = sum_list (map row_round_score (check_rounds d))"

definition get_round_count :: "database \<Rightarrow> int" where
  "get_round_count d = int (length (check_rounds d))"

text \<open>\<open>ORDER BY id DESC\<close>.\<close>

definition order_by_id_desc :: "round_row list \<Rightarrow> round_row list" where
  "order_by_id_desc rows = rev (sort_key row_id rows)"

text \<open>\<open>LIMIT ?\<close> bound to a Python integer: a value outside 64 bits cannot be bound, a
  negative one means no limit.\<close>

definition sql_limit :: "int \<Rightarrow> 'a list \<Rightarrow> pyexc + 'a list" where
  "sql_limit n rows =
     (if n < - (2 ^ 63) \<or> 2 ^ 63 \<le> n
      then Inl (PyExc OverflowError (lit ''Python int too large to convert to SQLite INTEGER''))
      else Inr (if n < 0 then rows else take (nat n) rows))"

definition get_recent_rounds :: "database \<Rightarrow> int \<Rightarrow> pyexc + round_row list" where
  "get_recent_rounds d limit = sql_limit limit (order_by_id_desc (check_rounds d))"

text \<open>The columns \<open>timestamp, round_score, max_score\<close> of a round.\<close>

definition score_columns :: "round_row \<Rightarrow> pystr \<times> int \<times> int" where
  "score_columns r = (timestamp r, row_round_score r, max_score r)"

definition get_score_history :: "database \<Rightarrow> int \<Rightarrow> pyexc + (pystr \<times> int \<times> int) list" where
  "get_score_history d limit =
     (case sql_limit limit (map score_columns (order_by_id_desc (check_rounds d))) of
        Inl e \<Rightarrow> Inl e
      | Inr rows \<Rightarrow> Inr (rev rows))"


section \<open>Rounds and the scheduler (\<open>app.py\<close>)\<close>

text \<open>The shared dictionary \<open>_state\<close>.\<close>

record status =
  last_check_time :: "pystr option"
  next_check_in :: int
  current_results :: "pystr \<rightharpoonup> result"
  round_score :: int
  is_checking :: bool

definition initial_status :: status where
  "initial_status =
     \<lparr>last_check_time = None, next_check_in = 0, current_results = Map.empty,
      round_score = 0, is_checking = False\<rparr>"

text \<open>What the logger is given: the line of one service, the start and the end of a round,
  and the error of a round that raised.\<close>

datatype log_record =
    ServiceLine bool pystr int pystr
  | RoundStart
  | RoundComplete int int int
  | RoundError pystr

text \<open>All that the scheduler thread changes.\<close>

record world =
  state :: status
  db :: database
  logged :: "log_record list"

text \<open>What one round meets: the network, the clock read by \<open>save_round\<close> and the clock
  read when the snapshot is published, and what the storage raises in \<open>save_round\<close> and
  in \<open>get_cumulative_score\<close>, if anything.\<close>

record round_env =
  net :: env
  save_clock :: pystr
  clock :: pystr
  save_fault :: "pyexc option"
  cumulative_fault :: "pyexc option"

text \<open>The \<open>for svc in config.SERVICES\<close> loop of \<open>_run_one_round\<close>, with its accumulators
  \<open>results\<close> and \<open>round_score\<close>.\<close>

fun check_loop ::
  "env \<Rightarrow> service list \<Rightarrow> result list \<Rightarrow> int \<Rightarrow> log_record list
   \<Rightarrow> result list \<times> int \<times> log_record list" where
  "check_loop E [] results rscore lg = (results, rscore, lg)"
| "check_loop E (svc # svcs) results rscore lg =
     (let (u, msg) = (case run_check E svc of
                        Inl exc \<Rightarrow> (False, lit ''Check exception: '' @ exc_str exc)
                      | Inr v \<Rightarrow> v);
          pts = (if u then points svc else 0);
          res = \<lparr>service_id = svc_id svc, up = u, points_earned = pts, message = msg\<rparr>
      in check_loop E svcs (results @ [res]) (rscore + pts)
           (lg @ [ServiceLine u (name svc) pts (take 70 msg)]))"

text \<open>\<open>{r["service_id"]: r for r in results}\<close>.\<close>

definition results_by_id :: "result list \<Rightarrow> pystr \<rightharpoonup> result" where
  "results_by_id results = fold (\<lambda>r m. m(service_id r \<mapsto> r)) results Map.empty"

text \<open>\<open>_run_one_round\<close>: the exception that leaves it, if any, and the world it leaves
  behind.\<close>

definition run_one_round :: "service list \<Rightarrow> round_env \<Rightarrow> world \<Rightarrow> pyexc option \<times> world" where
  "run_one_round SERVICES R w =
     (case check_loop (net R) SERVICES [] 0 (logged w) of
        (results, rscore, lg) \<Rightarrow>
          (case save_round (save_fault R) (save_clock R) (db w) results rscore
                  (MAX_SCORE_PER_ROUND SERVICES) of
             Inl e \<Rightarrow> (Some e, w\<lparr>logged := lg\<rparr>)
           | Inr d \<Rightarrow>
               (let st = (state w)\<lparr>last_check_time := Some (clock R), round_score := rscore,
                                   current_results := results_by_id results,
                                   is_checking := False\<rparr>
                in case cumulative_fault R of
                     Some e \<Rightarrow> (Some e, \<lparr>state = st, db = d, logged = lg\<rparr>)
                   | None \<Rightarrow>
                       (None, \<lparr>state = st, db = d,
                               logged = lg @ [RoundComplete rscore (MAX_SCORE_PER_ROUND SERVICES)
                                                (get_cumulative_score d)]\<rparr>))))"

text \<open>\<open>range(n, 0, -1)\<close>.\<close>

definition range_down :: "int \<Rightarrow> int list" where
  "range_down n = rev [1..n]"

definition set_next_check_in :: "int \<Rightarrow> world \<Rightarrow> world" where
  "set_next_check_in n w = w\<lparr>state := (state w)\<lparr>next_check_in := n\<rparr>\<rparr>"

text \<open>One turn of the \<open>while True\<close> loop of \<open>_scheduler_loop\<close>.\<close>

definition scheduler_round :: "service list \<Rightarrow> round_env \<Rightarrow> world \<Rightarrow> world" where
  "scheduler_round SERVICES R w =
     (let w1 = w\<lparr>state := (state w)\<lparr>is_checking := True\<rparr>,
                 logged := logged w @ [RoundStart]\<rparr>;
          w3 = (case run_one_round SERVICES R w1 of
                  (None, w2) \<Rightarrow> w2
                | (Some exc, w2) \<Rightarrow>
                    w2\<lparr>logged := logged w2 @ [RoundError (exc_str exc)],
                       state := (state w2)\<lparr>is_checking := False\<rparr>\<rparr>);
          w4 = fold set_next_check_in (range_down CHECK_INTERVAL) w3
      in set_next_check_in 0 w4)"

text \<open>The loop never ends by itself; it is run here for as many turns as there are round
  environments, the first turn at once.\<close>

fun scheduler_loop :: "service list \<Rightarrow> round_env list \<Rightarrow> world \<Rightarrow> world" where
  "scheduler_loop SERVICES [] w = w"
| "scheduler_loop SERVICES (R # Rs) w = scheduler_loop SERVICES Rs (scheduler_round SERVICES R w)"


section \<open>Concrete networks and configurations\<close>

text \<open>A \<open>bytes\<close> literal of ASCII characters.\<close>

definition blit :: "string \<Rightarrow> pybytes" where
  "blit s = map (\<lambda>c. of_nat (of_char c)) s"

definition quoted_list :: "pystr list \<Rightarrow> pystr" where
  "quoted_list xs = lit ''['' @ join (lit '', '') (map (\<lambda>x. [39] @ x @ [39]) xs) @ lit '']''"

text \<open>A network on which nothing answers: connections are refused, datagrams are never
  answered. A port that does not fit the C \<open>long\<close> of the socket layer raises
  \<open>OverflowError\<close> before any connection is tried; a negative port is refused by the
  address lookup with an \<open>OSError\<close>.\<close>

definition refused :: pyexc where
  "refused = PyExc ConnectionRefusedError (lit ''[Errno 111] Connection refused'')"

definition dead_env :: env where
  "dead_env =
     \<lparr>has_dnspython = False,
      tcp_connect = (\<lambda>h p. if p < - (2 ^ 63) \<or> 2 ^ 63 \<le> p
                             then ConnectRaises (PyExc OverflowError
                                    (lit ''Python int too large to convert to C long''))
                             else if p < 0
                             then ConnectRaises (PyExc OSError
                                    (lit ''[Errno -8] Servname not supported for ai_socktype''))
                             else ConnectRaises refused),
      urlopen = (\<lambda>url. RaisesURLError (lit ''[Errno 111] Connection refused'')),
      ftp_open = (\<lambda>h p. \<lparr>ftp_connect = Some refused, ftp_welcome = [], ftp_login = None,
                           ftp_quit = (\<lambda>n. None)\<rparr>),
      smtp_open = (\<lambda>h p. \<lparr>smtp_connect = Inl refused, smtp_ehlo = Inl refused,
                            smtp_exit = None\<rparr>),
      dns_resolve = (\<lambda>h q. Inl (PyExc OtherException (lit ''The DNS operation timed out.''))),
      udp_exchange = (\<lambda>pkt h p. Inl (PyExc SocketTimeout (lit ''timed out''))),
      format_list = quoted_list\<rparr>"

text \<open>A network on which every TCP port accepts and sends \<open>data\<close> at once.\<close>

definition send_at_once :: "pybytes \<Rightarrow> nat \<Rightarrow> pyexc + pybytes" where
  "send_at_once data n = Inr (take n data)"

definition greeting_env :: "pybytes \<Rightarrow> env" where
  "greeting_env data = dead_env\<lparr>tcp_connect := (\<lambda>h p. Connected (send_at_once data))\<rparr>"

definition handshake_57 :: pybytes where
  "handshake_57 = [0x00, 0x00, 0x00, 0x00, 0x0a] @ blit ''5.7.0'' @ [0x00, 0x08, 0x00]"

text \<open>Other things a database port may send first: a handshake cut before the end of the
  version, two octets, the error packet 1040, an error packet with an accented letter and
  an octet that is no UTF-8, and packets whose protocol octet is 9 or \<open>0xfe\<close>.\<close>

definition handshake_cut :: pybytes where
  "handshake_cut = [0x00, 0x00, 0x00, 0x00, 0x0a] @ blit ''5.7''"

definition handshake_short :: pybytes where
  "handshake_short = [0x4a, 0x00]"

definition error_packet :: pybytes where
  "error_packet = [0x17, 0x00, 0x00, 0x00, 0xff, 0x10, 0x04] @ blit ''Too many connections''"

definition error_garbled :: pybytes where
  "error_garbled = [0x09, 0x00, 0x00, 0x00, 0xff, 0x10, 0x04] @ blit ''caf'' @ [0xc3, 0xa9, 0xff]"

definition handshake_v9 :: pybytes where
  "handshake_v9 = [0x00, 0x00, 0x00, 0x00, 0x09] @ blit ''3.20'' @ [0x00]"

definition packet_fe :: pybytes where
  "packet_fe = [0x01, 0x00, 0x00, 0x00, 0xfe]"

text \<open>A mail server that greets with 220 and answers \<open>EHLO\<close> with 502 (command not
  implemented), as a server that only knows \<open>HELO\<close> does.\<close>

definition helo_only_session :: smtp_session where
  "helo_only_session =
     \<lparr>smtp_connect = Inr (220, blit ''mail.ludus.domain SMTP ready''),
      smtp_ehlo = Inr (502, blit ''5.5.2 Error: command not recognized''),
      smtp_exit = None\<rparr>"

definition helo_only_env :: env where
  "helo_only_env = dead_env\<lparr>smtp_open := (\<lambda>h p. helo_only_session)\<rparr>"

text \<open>Greetings of a POP3 server: ready, refusing, and a bare \<open>+OK\<close> followed by a
  space and the line end.\<close>

definition pop3_ready :: pybytes where
  "pop3_ready = blit ''+OK POP3 ready'' @ [0x0d, 0x0a]"

definition pop3_err :: pybytes where
  "pop3_err = blit ''-ERR''"

definition pop3_bare_ok :: pybytes where
  "pop3_bare_ok = blit ''+OK '' @ [0x0d, 0x0a]"

text \<open>A network on which a datagram to port 53 is answered with \<open>resp\<close> and a datagram
  to any other port has the outcome \<open>other\<close>.\<close>

definition udp53_env :: "pybytes \<Rightarrow> pyexc + pybytes \<Rightarrow> env" where
  "udp53_env resp other =
     dead_env\<lparr>udp_exchange := (\<lambda>pkt h p. if p = 53 then Inr resp else other)\<rparr>"

definition noerror_response :: pybytes where
  "noerror_response =
     [0xab, 0xcd, 0x81, 0x80, 0x00, 0x01, 0x00, 0x01, 0x00, 0x00, 0x00, 0x00]"

definition nxdomain_response :: pybytes where
  "nxdomain_response =
     [0xab, 0xcd, 0x81, 0x83, 0x00, 0x01, 0x00, 0x00, 0x00, 0x00, 0x00, 0x00]"

definition short_response :: pybytes where
  "short_response = [0xab, 0xcd, 0x81, 0x80]"

text \<open>The query packet for \<open>web.ludus.domain\<close>.\<close>

definition web_query_packet :: pybytes where
  "web_query_packet =
     [0xab, 0xcd, 0x01, 0x00, 0x00, 0x01, 0x00, 0x00, 0x00, 0x00, 0x00, 0x00]
     @ [3] @ blit ''web'' @ [5] @ blit ''ludus'' @ [6] @ blit ''domain'' @ [0]
     @ [0x00, 0x01, 0x00, 0x01]"

text \<open>The configuration of range 10.\<close>

definition lab_services :: "service list" where
  "lab_services = build_services (BASE_NET 10)"

definition lab_dns :: service where
  "lab_dns = lab_services ! 5"

text \<open>What the body of the loop of \<open>_run_one_round\<close> makes of one service: the verdict
  after the \<open>try\<close>, and the entry appended to \<open>results\<close>.\<close>

definition round_verdict :: "env \<Rightarrow> service \<Rightarrow> verdict" where
  "round_verdict E svc =
     (case run_check E svc of
        Inl exc \<Rightarrow> (False, lit ''Check exception: '' @ exc_str exc)
      | Inr v \<Rightarrow> v)"

definition round_entry :: "env \<Rightarrow> service \<Rightarrow> result" where
  "round_entry E svc =
     \<lparr>service_id = svc_id svc, up = fst (round_verdict E svc),
      points_earned = (if fst (round_verdict E svc) then points svc else 0),
      message = snd (round_verdict E svc)\<rparr>"

definition round_line :: "env \<Rightarrow> service \<Rightarrow> log_record" where
  "round_line E svc =
     ServiceLine (fst (round_verdict E svc)) (name svc)
       (if fst (round_verdict E svc) then points svc else 0)
       (take 70 (snd (round_verdict E svc)))"

text \<open>Three services worth 100, 50 and 75 points: two plain TCP checks and a POP3 banner
  check.\<close>

definition three_services :: "service list" where
  "three_services =
     [mk_service ''smb'' ''SMB File Share'' ''FILESVR'' (lit ''10.10.10.51'') 445 100 ''tcp'',
      (mk_service ''pop3'' ''POP3 (Mail)'' ''MAIL01'' (lit ''10.10.10.61'') 110 50 ''banner'')
        \<lparr>banner_expect := Some (lit ''+OK'')\<rparr>,
      mk_service ''ldap'' ''LDAP (Active Directory)'' ''DC01'' (lit ''10.10.10.11'') 389 75
        ''tcp'']"

text \<open>A configuration with a port of 2 to the power 64, which the socket layer cannot
  convert, and with a check type that the dispatcher does not know.\<close>

definition odd_services :: "service list" where
  "odd_services =
     [mk_service ''wide'' ''Port out of range'' ''WEB01'' (lit ''10.10.10.31'')
        18446744073709551616 100 ''tcp'',
      mk_service ''ping'' ''Echo'' ''WEB01'' (lit ''10.10.10.31'') 0 50 ''icmp'',
      mk_service ''smb'' ''SMB File Share'' ''FILESVR'' (lit ''10.10.10.51'') 445 50 ''tcp'']"

text \<open>The rows of \<open>check_rounds\<close> carry identifiers that grow in the order of insertion
  and that the counter has already passed: what \<open>init_db\<close> sets up and \<open>save_round\<close>
  keeps.\<close>

definition db_wf :: "database \<Rightarrow> bool" where
  "db_wf d \<longleftrightarrow>
     sorted_wrt (<) (map row_id (check_rounds d))
     \<and> list_all (\<lambda>r. row_id r \<le> rounds_seq d) (check_rounds d)"

text \<open>A round whose results cannot be stored, a round that goes through, and the world at
  the start of the process.\<close>

definition disk_error :: pyexc where
  "disk_error = PyExc OtherException (lit ''unable to open database file'')"

definition failing_round :: round_env where
  "failing_round =
     \<lparr>net = greeting_env pop3_err, save_clock = lit ''2024-05-01 10:00:00'',
      clock = lit ''2024-05-01 10:00:00'', save_fault = Some disk_error,
      cumulative_fault = None\<rparr>"

definition good_round :: round_env where
  "good_round =
     \<lparr>net = greeting_env pop3_err, save_clock = lit ''2024-05-01 10:01:00'',
      clock = lit ''2024-05-01 10:01:00'', save_fault = None, cumulative_fault = None\<rparr>"

definition start_world :: world where
  "start_world = \<lparr>state = initial_status, db = init_db None, logged = []\<rparr>"

text \<open>The log after two stored rounds.\<close>

definition two_rounds_db :: database where
  "two_rounds_db =
     \<lparr>check_rounds =
        [\<lparr>row_id = 1, timestamp = lit ''2024-05-01 10:00:00'', row_round_score = 175,
          max_score = 225\<rparr>,
         \<lparr>row_id = 2, timestamp = lit ''2024-05-01 10:01:00'', row_round_score = 100,
          max_score = 225\<rparr>],
      service_checks = [], rounds_seq = 2, checks_seq = 0\<rparr>"

section \<open>Properties\<close>

subsection \<open>The MySQL handshake\<close>

lemma index_loop_None: "index_loop b xs i = None \<longleftrightarrow> b \<notin> set xs"
  by (induction xs arbitrary: i) auto

lemma index_loop_Some:
  "index_loop b xs i = Some j \<Longrightarrow> i \<le> j \<and> take (j - i) xs = takeWhile (\<lambda>x. x \<noteq> b) xs"
proof (induction xs arbitrary: i)
  case Nil
  then show ?case by simp
next
  case (Cons x xs)
  show ?case
  proof (cases "x = b")
    case True
    with Cons.prems show ?thesis by simp
  next
    case False
    with Cons.prems have step: "index_loop b xs (Suc i) = Some j" by simp
    from Cons.IH [OF step] have le: "Suc i \<le> j"
      and tk: "take (j - Suc i) xs = takeWhile (\<lambda>x. x \<noteq> b) xs" by simp_all
    from le have "j - i = Suc (j - Suc i)" by simp
    with tk False le show ?thesis by simp
  qed
qed

lemma bytes_index_found:
  assumes mem: "b \<in> set (drop start data)"
  shows "\<exists>j. bytes_index data b start = Inr j
            \<and> slice data start j = takeWhile (\<lambda>x. x \<noteq> b) (drop start data)"
proof -
  from mem obtain j where j: "index_loop b (drop start data) start = Some j"
    using index_loop_None [of b "drop start data" start]
    by (cases "index_loop b (drop start data) start") auto
  from index_loop_Some [OF j] show ?thesis
    by (auto simp: bytes_index_def slice_def j)
qed

lemma bytes_index_missing:
  "b \<notin> set (drop start data) \<Longrightarrow> \<exists>e. bytes_index data b start = Inl e"
  by (simp add: bytes_index_def index_loop_None [THEN iffD2])

lemma hex_digit_char:
  assumes "d < 16"
  shows "hex_digit d = of_char (''0123456789abcdef'' ! d)"
proof -
  from assms consider "d = 0" | "d = 1" | "d = 2" | "d = 3" | "d = 4" | "d = 5" | "d = 6"
    | "d = 7" | "d = 8" | "d = 9" | "d = 10" | "d = 11" | "d = 12" | "d = 13" | "d = 14"
    | "d = 15"
    by atomize_elim presburger
  then show ?thesis
    by cases (simp_all add: hex_digit_def)
qed

lemma hex02_digits:
  "hex02 b = lit [''0123456789abcdef'' ! (unat b div 16), ''0123456789abcdef'' ! (unat b mod 16)]"
proof -
  have "unat b < 256" using unsigned_less [of b, where 'a = nat] by simp
  then have hi: "unat b div 16 < 16" by simp
  have lo: "unat b mod 16 < 16" by simp
  show ?thesis
    by (simp add: hex02_def lit_def hex_digit_char [OF hi] hex_digit_char [OF lo])
qed

text \<open>
  Claim C5. Whatever \<open>check_mysql\<close> receives on the connection decides its verdict: fewer
  than 5 octets give down with "Incomplete handshake"; octet 4 equal to \<open>0x0a\<close> gives up,
  the message carrying the octets from offset 5 up to the first zero octet (decoded as
  ASCII, an octet above 127 replaced by U+FFFD), or a fallback message when there is no
  zero octet; octet 4 equal to \<open>0xff\<close> gives
  down with the text from offset 7 on (at most 60 characters); any other octet 4 gives up
  with that octet as two lower-case hexadecimal digits.
\<close>

theorem check_mysql_handshake:
  assumes "tcp_connect E h p = Connected s" and "s 256 = Inr data"
  shows "check_mysql E h p =
     (if length data < 5 then (False, lit ''Incomplete handshake'')
      else if data ! 4 = 0x0a then
         (if 0 \<in> set (drop 5 data)
          then (True, lit ''MySQL/MariaDB ''
                      @ map (\<lambda>b. if b < 0x80 then unat b else 0xFFFD)
                          (takeWhile (\<lambda>b. b \<noteq> 0) (drop 5 data)))
          else (True, lit ''MySQL handshake OK (version unreadable)''))
      else if data ! 4 = 0xff
        then (False, lit ''MySQL error: '' @ take 60 (decode_utf8_replace (drop 7 data)))
      else (True, lit ''DB port open (proto byte=0x''
                  @ lit [''0123456789abcdef'' ! (unat (data ! 4) div 16),
                         ''0123456789abcdef'' ! (unat (data ! 4) mod 16)]
                  @ lit '')''))"
proof -
  have asc: "decode_ascii_replace bs = map (\<lambda>b. if b < 0x80 then unat b else 0xFFFD) bs" for bs
    by (simp add: decode_ascii_replace_def REPLACEMENT_def word_less_nat_alt)
  show ?thesis
  proof (cases "length data \<ge> 5 \<and> data ! 4 = 0x0a")
    case False
    with assms show ?thesis by (auto simp: check_mysql_def Let_def hex02_digits)
  next
    case True
    show ?thesis
    proof (cases "0 \<in> set (drop 5 data)")
      case mem: True
      from bytes_index_found [OF mem] obtain j where
        "bytes_index data 0 5 = Inr j"
        "slice data 5 j = takeWhile (\<lambda>x. x \<noteq> 0) (drop 5 data)"
        by blast
      with True mem assms show ?thesis by (simp add: check_mysql_def Let_def asc)
    next
      case nomem: False
      from bytes_index_missing [OF nomem] obtain e where "bytes_index data 0 5 = Inl e" by blast
      with True nomem assms show ?thesis by (simp add: check_mysql_def Let_def)
    qed
  qed
qed

lemma greeting_connects:
  "tcp_connect (greeting_env data) h p = Connected (send_at_once data)"
  by (simp add: greeting_env_def)

lemmas packets =
  handshake_57_def handshake_cut_def handshake_short_def error_packet_def error_garbled_def
  handshake_v9_def packet_fe_def

theorem check_mysql_handshake_witness:
  "tcp_connect (greeting_env handshake_57) (lit ''10.10.10.41'') 3306
     = Connected (send_at_once handshake_57)
   \<and> send_at_once handshake_57 256 = Inr handshake_57
   \<and> check_mysql (greeting_env handshake_57) (lit ''10.10.10.41'') 3306
       = (True, lit ''MySQL/MariaDB 5.7.0'')
   \<and> send_at_once handshake_cut 256 = Inr handshake_cut
   \<and> check_mysql (greeting_env handshake_cut) (lit ''10.10.10.41'') 3306
       = (True, lit ''MySQL handshake OK (version unreadable)'')
   \<and> send_at_once handshake_short 256 = Inr handshake_short
   \<and> check_mysql (greeting_env handshake_short) (lit ''10.10.10.41'') 3306
       = (False, lit ''Incomplete handshake'')
   \<and> send_at_once error_packet 256 = Inr error_packet
   \<and> check_mysql (greeting_env error_packet) (lit ''10.10.10.41'') 3306
       = (False, lit ''MySQL error: Too many connections'')
   \<and> send_at_once error_garbled 256 = Inr error_garbled
   \<and> check_mysql (greeting_env error_garbled) (lit ''10.10.10.41'') 3306
       = (False, lit ''MySQL error: caf'' @ [0xE9, 0xFFFD])
   \<and> send_at_once handshake_v9 256 = Inr handshake_v9
   \<and> check_mysql (greeting_env handshake_v9) (lit ''10.10.10.41'') 3306
       = (True, lit ''DB port open (proto byte=0x09)'')
   \<and> send_at_once packet_fe 256 = Inr packet_fe
   \<and> check_mysql (greeting_env packet_fe) (lit ''10.10.10.41'') 3306
       = (True, lit ''DB port open (proto byte=0xfe)'')"
proof -
  note c = greeting_connects [of _ "lit ''10.10.10.41''" 3306]
  have r: "send_at_once handshake_57 256 = Inr handshake_57"
    "send_at_once handshake_cut 256 = Inr handshake_cut"
    "send_at_once handshake_short 256 = Inr handshake_short"
    "send_at_once error_packet 256 = Inr error_packet"
    "send_at_once error_garbled 256 = Inr error_garbled"
    "send_at_once handshake_v9 256 = Inr handshake_v9"
    "send_at_once packet_fe 256 = Inr packet_fe"
    by (simp_all add: send_at_once_def packets blit_def)
  have v57: "check_mysql (greeting_env handshake_57) (lit ''10.10.10.41'') 3306
       = (True, lit ''MySQL/MariaDB 5.7.0'')"
    using check_mysql_handshake [OF c r(1)]
    by (simp add: handshake_57_def blit_def lit_def)
  have vcut: "check_mysql (greeting_env handshake_cut) (lit ''10.10.10.41'') 3306
       = (True, lit ''MySQL handshake OK (version unreadable)'')"
    using check_mysql_handshake [OF c r(2)]
    by (simp add: handshake_cut_def blit_def)
  have vshort: "check_mysql (greeting_env handshake_short) (lit ''10.10.10.41'') 3306
       = (False, lit ''Incomplete handshake'')"
    using check_mysql_handshake [OF c r(3)]
    by (simp add: handshake_short_def)
  have verr: "check_mysql (greeting_env error_packet) (lit ''10.10.10.41'') 3306
       = (False, lit ''MySQL error: Too many connections'')"
    using check_mysql_handshake [OF c r(4)]
    by (simp add: error_packet_def blit_def lit_def decode_utf8_replace_def utf8_step_def)
  have vgarbled: "check_mysql (greeting_env error_garbled) (lit ''10.10.10.41'') 3306
       = (False, lit ''MySQL error: caf'' @ [0xE9, 0xFFFD])"
    using check_mysql_handshake [OF c r(5)]
    by (simp add: error_garbled_def blit_def lit_def decode_utf8_replace_def utf8_step_def
        is_cont_def REPLACEMENT_def)
  have v9: "check_mysql (greeting_env handshake_v9) (lit ''10.10.10.41'') 3306
       = (True, lit ''DB port open (proto byte=0x09)'')"
    using check_mysql_handshake [OF c r(6)]
    by (simp add: handshake_v9_def blit_def lit_def)
  have vfe: "check_mysql (greeting_env packet_fe) (lit ''10.10.10.41'') 3306
       = (True, lit ''DB port open (proto byte=0xfe)'')"
    using check_mysql_handshake [OF c r(7)]
    by (simp add: packet_fe_def lit_def)
  from c r v57 vcut vshort verr vgarbled v9 vfe show ?thesis by blast
qed

subsection \<open>The SMTP check\<close>

text \<open>
  Claim C2 says that \<open>check_smtp\<close> reports up only when the server accepts \<open>EHLO\<close>. The
  check sends \<open>EHLO\<close> and drops the reply: against a server that greets with 220 and
  rejects \<open>EHLO\<close> with 502 the verdict is up, with the message "EHLO accepted".
\<close>

theorem check_smtp_ehlo_rejected:
  "check_smtp helo_only_env (lit ''10.10.10.61'') 25
     = (True, lit ''EHLO accepted | mail.ludus.domain SMTP ready'')"
  by (simp add: check_smtp_def smtp_body_def helo_only_env_def helo_only_session_def
      decode_utf8_replace_def utf8_step_def blit_def lit_def)

subsection \<open>The banner check\<close>

lemmas text_eval = lit_def blit_def decode_utf8_replace_def utf8_step_def strip_def is_space_def

text \<open>
  Claim C7 reads the expected text in the decoded banner. The check strips the decoded
  banner first: a greeting \<open>+OK\<close>, space, line end contains the expected text \<open>+OK\<close>
  followed by a space, yet the verdict is down.
\<close>

theorem check_banner_unstripped_counterexample:
  "tcp_connect (greeting_env pop3_bare_ok) (lit ''10.10.10.61'') 110
     = Connected (send_at_once pop3_bare_ok)
   \<and> send_at_once pop3_bare_ok 1024 = Inr pop3_bare_ok
   \<and> sublist (lit ''+OK '') (decode_utf8_replace pop3_bare_ok)
   \<and> \<not> fst (check_banner (greeting_env pop3_bare_ok) (lit ''10.10.10.61'') 110
              (Some (lit ''+OK '')))"
  by (simp add: greeting_env_def send_at_once_def pop3_bare_ok_def check_banner_def text_eval
      sublist_Cons_right)

text \<open>
  Claim C7, amended. With an expected text configured, \<open>check_banner\<close> reports up exactly
  when that text occurs in the received banner after decoding (undecodable octets
  replaced) and stripping of leading and trailing white space; the message of a down
  verdict names the missing text. Expected \<open>+OK\<close> gives up on \<open>+OK POP3 ready\<close> and
  down on \<open>-ERR\<close>.
\<close>

theorem check_banner_expected:
  assumes "tcp_connect E h p = Connected s" and "s 1024 = Inr raw"
  shows "(fst (check_banner E h p (Some ex)) \<longleftrightarrow> sublist ex (strip (decode_utf8_replace raw)))
    \<and> snd (check_banner E h p (Some ex)) =
        (if sublist ex (strip (decode_utf8_replace raw))
         then lit ''Banner: '' @ take 80 (strip (decode_utf8_replace raw))
         else lit ''Banner missing '' @ [39] @ ex @ [39] @ lit '': ''
              @ take 80 (strip (decode_utf8_replace raw)))"
  using assms by (auto simp: check_banner_def Let_def)

theorem check_banner_expected_witness:
  "tcp_connect (greeting_env pop3_ready) (lit ''10.10.10.61'') 110
     = Connected (send_at_once pop3_ready)
   \<and> send_at_once pop3_ready 1024 = Inr pop3_ready
   \<and> check_banner (greeting_env pop3_ready) (lit ''10.10.10.61'') 110 (Some (lit ''+OK''))
       = (True, lit ''Banner: +OK POP3 ready'')
   \<and> tcp_connect (greeting_env pop3_err) (lit ''10.10.10.61'') 110
       = Connected (send_at_once pop3_err)
   \<and> send_at_once pop3_err 1024 = Inr pop3_err
   \<and> check_banner (greeting_env pop3_err) (lit ''10.10.10.61'') 110 (Some (lit ''+OK''))
       = (False, lit ''Banner missing '' @ [39] @ lit ''+OK'' @ [39] @ lit '': -ERR'')"
proof -
  have c1: "tcp_connect (greeting_env pop3_ready) (lit ''10.10.10.61'') 110
              = Connected (send_at_once pop3_ready)"
    and c2: "tcp_connect (greeting_env pop3_err) (lit ''10.10.10.61'') 110
              = Connected (send_at_once pop3_err)"
    by (simp_all add: greeting_env_def)
  have r1: "send_at_once pop3_ready 1024 = Inr pop3_ready"
    and r2: "send_at_once pop3_err 1024 = Inr pop3_err"
    by (simp_all add: send_at_once_def pop3_ready_def pop3_err_def blit_def)
  have s1: "strip (decode_utf8_replace pop3_ready) = lit ''+OK POP3 ready''"
    and s2: "strip (decode_utf8_replace pop3_err) = lit ''-ERR''"
    by (simp_all add: pop3_ready_def pop3_err_def text_eval)
  have up: "sublist (lit ''+OK'') (lit ''+OK POP3 ready'')"
    and down: "\<not> sublist (lit ''+OK'') (lit ''-ERR'')"
    by (simp_all add: lit_def sublist_Cons_right)
  from check_banner_expected [OF c1 r1, of "lit ''+OK''"] up
  have v1: "check_banner (greeting_env pop3_ready) (lit ''10.10.10.61'') 110 (Some (lit ''+OK''))
              = (True, lit ''Banner: +OK POP3 ready'')"
    by (simp add: s1 prod_eq_iff lit_def)
  from check_banner_expected [OF c2 r2, of "lit ''+OK''"] down
  have v2: "check_banner (greeting_env pop3_err) (lit ''10.10.10.61'') 110 (Some (lit ''+OK''))
              = (False, lit ''Banner missing '' @ [39] @ lit ''+OK'' @ [39] @ lit '': -ERR'')"
    by (simp add: s2 prod_eq_iff lit_def)
  from c1 r1 v1 c2 r2 v2 show ?thesis by blast
qed

subsection \<open>The DNS check\<close>

lemma low_nibble: "unat ((b :: byte) AND 0x0F) = unat b mod 16"
proof -
  have "b AND 0x0F = take_bit 4 b"
    by (simp add: take_bit_eq_mask mask_eq_exp_minus_1)
  then have "unat (b AND 0x0F) = take_bit 4 (unat b)"
    by (simp only: unsigned_take_bit_eq)
  then show ?thesis
    by (simp add: take_bit_eq_mod)
qed

lemma str_int_uint: "str_int (uint (w :: byte)) = dec_nat (unat w)"
  by (simp add: str_int_def)

lemma unat_eq_0_byte: "(w :: byte) = 0 \<longleftrightarrow> unat w = 0"
  by (simp add: unat_eq_0)

text \<open>
  Claim C6. Once the query packet is built and a response to it arrives, \<open>dns_raw_udp\<close>
  decides on the response alone: fewer than 12 octets give down with "Short DNS response";
  otherwise the return code is the low 4 bits of octet 3, code 0 gives up (NOERROR) and any
  other code gives down with the code in the message. The expected address plays no part.
\<close>

theorem dns_raw_udp_response:
  assumes "dns_packet query = Inr packet" and "udp_exchange E packet h 53 = Inr response"
  shows "dns_raw_udp E h query expected_ip =
     (if length response < 12 then (False, lit ''Short DNS response'')
      else if unat (response ! 3) mod 16 = 0
        then (True, lit ''DNS query OK (NOERROR) for '' @ query)
      else (False, lit ''DNS RCODE '' @ dec_nat (unat (response ! 3) mod 16) @ lit '' for ''
                   @ query))
    \<and> dns_raw_udp E h query expected_ip = dns_raw_udp E h query other_ip"
  using assms
  by (simp add: dns_raw_udp_def Let_def str_int_uint unat_eq_0_byte low_nibble)

lemma web_query: "dns_packet (lit ''web.ludus.domain'') = Inr web_query_packet"
  by (simp add: dns_packet_def web_query_packet_def lit_def blit_def encode_cp_def)


theorem dns_raw_udp_response_witness:
  "dns_packet (lit ''web.ludus.domain'') = Inr web_query_packet
   \<and> udp_exchange (udp53_env noerror_response (Inl refused)) web_query_packet
         (lit ''10.10.10.71'') 53 = Inr noerror_response
   \<and> dns_raw_udp (udp53_env noerror_response (Inl refused)) (lit ''10.10.10.71'')
         (lit ''web.ludus.domain'') (Some (lit ''10.10.10.31''))
       = (True, lit ''DNS query OK (NOERROR) for web.ludus.domain'')
   \<and> udp_exchange (udp53_env nxdomain_response (Inl refused)) web_query_packet
         (lit ''10.10.10.71'') 53 = Inr nxdomain_response
   \<and> dns_raw_udp (udp53_env nxdomain_response (Inl refused)) (lit ''10.10.10.71'')
         (lit ''web.ludus.domain'') (Some (lit ''10.10.10.31''))
       = (False, lit ''DNS RCODE 3 for web.ludus.domain'')
   \<and> udp_exchange (udp53_env short_response (Inl refused)) web_query_packet
         (lit ''10.10.10.71'') 53 = Inr short_response
   \<and> dns_raw_udp (udp53_env short_response (Inl refused)) (lit ''10.10.10.71'')
         (lit ''web.ludus.domain'') (Some (lit ''10.10.10.31''))
       = (False, lit ''Short DNS response'')"
proof -
  have x: "udp_exchange (udp53_env r (Inl refused)) web_query_packet (lit ''10.10.10.71'') 53
             = Inr r" for r
    by (simp add: udp53_env_def)
  have three: "dec_nat 3 = lit ''3''"
    by (simp add: dec_nat.simps lit_def)
  from dns_raw_udp_response [OF web_query x, of noerror_response "Some (lit ''10.10.10.31'')"]
  have a: "dns_raw_udp (udp53_env noerror_response (Inl refused)) (lit ''10.10.10.71'')
         (lit ''web.ludus.domain'') (Some (lit ''10.10.10.31''))
       = (True, lit ''DNS query OK (NOERROR) for web.ludus.domain'')"
    by (simp add: noerror_response_def lit_def)
  from dns_raw_udp_response [OF web_query x, of nxdomain_response "Some (lit ''10.10.10.31'')"]
  have b: "dns_raw_udp (udp53_env nxdomain_response (Inl refused)) (lit ''10.10.10.71'')
         (lit ''web.ludus.domain'') (Some (lit ''10.10.10.31''))
       = (False, lit ''DNS RCODE 3 for web.ludus.domain'')"
    by (simp add: nxdomain_response_def three) (simp add: lit_def)
  from dns_raw_udp_response [OF web_query x, of short_response "Some (lit ''10.10.10.31'')"]
  have c: "dns_raw_udp (udp53_env short_response (Inl refused)) (lit ''10.10.10.71'')
         (lit ''web.ludus.domain'') (Some (lit ''10.10.10.31''))
       = (False, lit ''Short DNS response'')"
    by (simp add: short_response_def)
  from web_query x a b c show ?thesis by blast
qed

lemma lit_neq:
  "lit ''dns'' \<noteq> lit ''tcp''" "lit ''dns'' \<noteq> lit ''http''" "lit ''dns'' \<noteq> lit ''ftp''"
  "lit ''dns'' \<noteq> lit ''smtp''" "lit ''dns'' \<noteq> lit ''banner''" "lit ''dns'' \<noteq> lit ''mysql''"
  by (simp_all add: lit_def)

lemma run_check_dns:
  "check_type s = lit ''dns'' \<Longrightarrow>
   run_check E s = Inr (check_dns E (host s)
       (case dns_query s of None \<Rightarrow> lit ''ludus.domain'' | Some q \<Rightarrow> q) (dns_expected_ip s))"
  by (simp add: run_check_def Let_def lit_neq)

lemma dns_raw_udp_cong:
  "(\<forall>pkt. udp_exchange E' pkt h 53 = udp_exchange E pkt h 53) \<Longrightarrow>
   dns_raw_udp E' h q x = dns_raw_udp E h q x"
  by (cases "dns_packet q") (simp_all add: dns_raw_udp_def)

text \<open>
  Claim C10. For a service of check type \<open>dns\<close> the dispatcher gives the same verdict
  whatever the port field holds, and without the resolver library the verdict depends on
  the network only through what happens to the datagram sent to port 53 of the host.
\<close>

theorem dns_port_ignored:
  assumes "check_type s = lit ''dns''"
  shows "run_check E (s\<lparr>port := p\<rparr>) = run_check E s
       \<and> (\<not> has_dnspython E \<and> \<not> has_dnspython E'
           \<and> (\<forall>pkt. udp_exchange E' pkt (host s) 53 = udp_exchange E pkt (host s) 53)
          \<longrightarrow> run_check E' (s\<lparr>port := p\<rparr>) = run_check E s)"
proof -
  from assms have t: "check_type (s\<lparr>port := p\<rparr>) = lit ''dns''" by simp
  show ?thesis
    by (auto simp: run_check_dns [OF assms] run_check_dns [OF t] check_dns_def
        dns_raw_udp_cong)
qed

lemma lab_dns_eq:
  "lab_dns = (mk_service ''dns'' ''DNS Server'' ''DNS01'' (lit ''10.10.10.71'') 53 100 ''dns'')
        \<lparr>dns_query := Some (lit ''web.ludus.domain''),
         dns_expected_ip := Some (lit ''10.10.10.31'')\<rparr>"
  by (simp add: lab_dns_def lab_services_def build_services_def BASE_NET_def str_int_def
      dec_nat.simps lit_def)

theorem dns_port_ignored_witness:
  "check_type lab_dns = lit ''dns''
   \<and> \<not> has_dnspython (udp53_env noerror_response (Inl refused))
   \<and> \<not> has_dnspython (udp53_env noerror_response (Inr nxdomain_response))
   \<and> (\<forall>pkt. udp_exchange (udp53_env noerror_response (Inr nxdomain_response)) pkt
               (host lab_dns) 53
            = udp_exchange (udp53_env noerror_response (Inl refused)) pkt (host lab_dns) 53)
   \<and> run_check (udp53_env noerror_response (Inl refused)) (lab_dns\<lparr>port := 5353\<rparr>)
       = run_check (udp53_env noerror_response (Inl refused)) lab_dns
   \<and> run_check (udp53_env noerror_response (Inr nxdomain_response)) (lab_dns\<lparr>port := 5353\<rparr>)
       = run_check (udp53_env noerror_response (Inl refused)) lab_dns"
proof -
  have t: "check_type lab_dns = lit ''dns''"
    by (simp add: lab_dns_eq mk_service_def)
  have d: "\<not> has_dnspython (udp53_env r other)" for r other
    by (simp add: udp53_env_def dead_env_def)
  have x: "\<forall>pkt. udp_exchange (udp53_env noerror_response (Inr nxdomain_response)) pkt
               (host lab_dns) 53
            = udp_exchange (udp53_env noerror_response (Inl refused)) pkt (host lab_dns) 53"
    by (simp add: udp53_env_def)
  from dns_port_ignored [OF t, of "udp53_env noerror_response (Inl refused)" 5353
      "udp53_env noerror_response (Inr nxdomain_response)"] t d x
  show ?thesis by blast
qed

subsection \<open>One round of checks\<close>

lemma check_loop_step:
  "check_loop E (svc # svcs) results rscore lg =
     check_loop E svcs (results @ [round_entry E svc])
       (rscore + points_earned (round_entry E svc)) (lg @ [round_line E svc])"
  by (simp add: round_entry_def round_verdict_def round_line_def Let_def
      split: sum.splits prod.splits)

lemma check_loop_eq:
  "check_loop E svcs results rscore lg =
     (results @ map (round_entry E) svcs,
      rscore + sum_list (map (\<lambda>s. points_earned (round_entry E s)) svcs),
      lg @ map (round_line E) svcs)"
proof (induction svcs arbitrary: results rscore lg)
  case Nil
  show ?case by simp
next
  case (Cons svc svcs)
  show ?case
    by (simp only: check_loop_step Cons.IH) simp
qed

lemma check_loop_results:
  assumes "check_loop E svcs [] 0 lg = (results, rscore, lg')"
  shows "results = map (round_entry E) svcs"
    and "rscore = sum_list (map points_earned results)"
  using assms by (auto simp: check_loop_eq comp_def)

text \<open>
  Claim C8. A service whose check type is none of \<open>tcp\<close>, \<open>http\<close>, \<open>ftp\<close>, \<open>smtp\<close>,
  \<open>banner\<close>, \<open>mysql\<close>, \<open>dns\<close> gets a down verdict whose message names the type. An
  exception that leaves \<open>run_check\<close> is caught in the loop of the round: the service gets
  a down verdict with a message that begins "Check exception:", and the round still has one
  result for every service.
\<close>

theorem unknown_type_and_exception_down:
  "(check_type s \<notin> set (map lit [''tcp'', ''http'', ''ftp'', ''smtp'', ''banner'', ''mysql'',
                                   ''dns''])
      \<longrightarrow> run_check E s = Inr (False, lit ''Unknown check type: '' @ check_type s))
   \<and> (check_loop E svcs [] 0 lg = (results, rscore, lg') \<and> i < length svcs
        \<and> run_check E (svcs ! i) = Inl exc
      \<longrightarrow> length results = length svcs
          \<and> \<not> up (results ! i)
          \<and> message (results ! i) = lit ''Check exception: '' @ exc_str exc
          \<and> prefix (lit ''Check exception:'') (message (results ! i)))"
proof -
  have unknown: "run_check E s = Inr (False, lit ''Unknown check type: '' @ check_type s)"
    if "check_type s \<notin> set (map lit [''tcp'', ''http'', ''ftp'', ''smtp'', ''banner'',
                                       ''mysql'', ''dns''])"
    using that by (simp add: run_check_def Let_def)
  have caught: "length results = length svcs \<and> \<not> up (results ! i)
          \<and> message (results ! i) = lit ''Check exception: '' @ exc_str exc
          \<and> prefix (lit ''Check exception:'') (message (results ! i))"
    if loop: "check_loop E svcs [] 0 lg = (results, rscore, lg')" and i: "i < length svcs"
      and raised: "run_check E (svcs ! i) = Inl exc"
  proof -
    from check_loop_results(1) [OF loop] have r: "results = map (round_entry E) svcs" .
    have v: "round_verdict E (svcs ! i) = (False, lit ''Check exception: '' @ exc_str exc)"
      by (simp add: round_verdict_def raised)
    have p: "prefix (lit ''Check exception:'') (lit ''Check exception: '' @ exc_str exc)"
      by (simp add: lit_def)
    from r i v p show ?thesis by (simp add: round_entry_def)
  qed
  from unknown caught show ?thesis by blast
qed

lemmas odd_eval = odd_services_def mk_service_def run_check_def check_tcp_def dead_env_def
  refused_def lit_def Let_def

theorem unknown_type_and_exception_down_witness:
  "check_type (odd_services ! 1) \<notin> set (map lit [''tcp'', ''http'', ''ftp'', ''smtp'',
        ''banner'', ''mysql'', ''dns''])
   \<and> run_check dead_env (odd_services ! 1) = Inr (False, lit ''Unknown check type: icmp'')
   \<and> 0 < length odd_services
   \<and> run_check dead_env (odd_services ! 0)
       = Inl (PyExc OverflowError (lit ''Python int too large to convert to C long''))
   \<and> length (fst (check_loop dead_env odd_services [] 0 [])) = length odd_services
   \<and> \<not> up (fst (check_loop dead_env odd_services [] 0 []) ! 0)
   \<and> message (fst (check_loop dead_env odd_services [] 0 []) ! 0)
       = lit ''Check exception: Python int too large to convert to C long''"
proof -
  have t: "check_type (odd_services ! 1) \<notin> set (map lit [''tcp'', ''http'', ''ftp'',
        ''smtp'', ''banner'', ''mysql'', ''dns''])"
    by (simp add: odd_services_def mk_service_def lit_def)
  have n: "0 < length odd_services"
    by (simp add: odd_services_def)
  have r: "run_check dead_env (odd_services ! 0)
       = Inl (PyExc OverflowError (lit ''Python int too large to convert to C long''))"
    by (simp add: odd_eval)
  have l: "check_loop dead_env odd_services [] 0 []
       = (fst (check_loop dead_env odd_services [] 0 []),
          fst (snd (check_loop dead_env odd_services [] 0 [])),
          snd (snd (check_loop dead_env odd_services [] 0 [])))"
    by simp
  note inst = unknown_type_and_exception_down [where s = "odd_services ! 1" and E = dead_env
      and svcs = odd_services and lg = "[]" and i = 0
      and results = "fst (check_loop dead_env odd_services [] 0 [])"
      and rscore = "fst (snd (check_loop dead_env odd_services [] 0 []))"
      and lg' = "snd (snd (check_loop dead_env odd_services [] 0 []))"
      and exc = "PyExc OverflowError (lit ''Python int too large to convert to C long'')"]
  from inst t have u: "run_check dead_env (odd_services ! 1)
       = Inr (False, lit ''Unknown check type: '' @ check_type (odd_services ! 1))"
    by blast
  have ct: "lit ''Unknown check type: '' @ check_type (odd_services ! 1)
        = lit ''Unknown check type: icmp''"
    by (simp add: odd_services_def mk_service_def lit_def)
  have u': "run_check dead_env (odd_services ! 1) = Inr (False, lit ''Unknown check type: icmp'')"
    using u unfolding ct .
  from inst l n r have c: "length (fst (check_loop dead_env odd_services [] 0 []))
         = length odd_services
     \<and> \<not> up (fst (check_loop dead_env odd_services [] 0 []) ! 0)
     \<and> message (fst (check_loop dead_env odd_services [] 0 []) ! 0)
       = lit ''Check exception: '' @ exc_str (PyExc OverflowError
            (lit ''Python int too large to convert to C long''))"
    by blast
  have m: "lit ''Check exception: '' @ exc_str (PyExc OverflowError
            (lit ''Python int too large to convert to C long''))
         = lit ''Check exception: Python int too large to convert to C long''"
    by (simp add: lit_def)
  from t u' n r c m show ?thesis by simp
qed

lemma distinct_count_list: "distinct xs \<Longrightarrow> x \<in> set xs \<Longrightarrow> count_list xs x = 1"
  by (induction xs) auto

text \<open>
  Claim C4. The result list of a round has one entry for every configured service, in the
  order of the configuration and under the identifier of the service (exactly one entry
  for each identifier when the identifiers are distinct); the entry carries the verdict
  and message of the check, and a down verdict when the check raised.
\<close>

theorem every_service_in_round_result:
  assumes "check_loop E svcs [] 0 lg = (results, rscore, lg')"
  shows "length results = length svcs
     \<and> map service_id results = map svc_id svcs
     \<and> (\<forall>i < length svcs.
          case run_check E (svcs ! i) of
            Inl exc \<Rightarrow> \<not> up (results ! i)
          | Inr v \<Rightarrow> (up (results ! i), message (results ! i)) = v)
     \<and> (distinct (map svc_id svcs)
        \<longrightarrow> (\<forall>s \<in> set svcs. count_list (map service_id results) (svc_id s) = 1))"
proof -
  from check_loop_results(1) [OF assms] have r: "results = map (round_entry E) svcs" .
  have ids: "map service_id results = map svc_id svcs"
    by (simp add: r round_entry_def)
  have each: "case run_check E (svcs ! i) of
            Inl exc \<Rightarrow> \<not> up (results ! i)
          | Inr v \<Rightarrow> (up (results ! i), message (results ! i)) = v"
    if "i < length svcs" for i
    using that by (simp add: r round_entry_def round_verdict_def split: sum.splits)
  have once: "count_list (map service_id results) (svc_id s) = 1"
    if "distinct (map svc_id svcs)" and "s \<in> set svcs" for s
    using that by (simp add: ids distinct_count_list)
  from r ids each once show ?thesis by simp
qed

text \<open>
  Claim C3. In every round the score is the sum of the points earned over the results; the
  points earned by a service are its configured points when it is up and 0 when it is
  down; and, the configured points being non-negative, the score lies between 0 and
  \<open>MAX_SCORE_PER_ROUND\<close>, the sum of the configured points, which depends on the
  configuration alone.
\<close>

theorem round_score_sum_and_bound:
  assumes nonneg: "\<forall>s \<in> set svcs. 0 \<le> points s"
    and loop: "check_loop E svcs [] 0 lg = (results, rscore, lg')"
  shows "rscore = sum_list (map points_earned results)
    \<and> length results = length svcs
    \<and> (\<forall>i < length svcs.
          points_earned (results ! i) = (if up (results ! i) then points (svcs ! i) else 0))
    \<and> 0 \<le> rscore \<and> rscore \<le> MAX_SCORE_PER_ROUND svcs
    \<and> MAX_SCORE_PER_ROUND svcs = sum_list (map points svcs)"
proof -
  from check_loop_results [OF loop] have r: "results = map (round_entry E) svcs"
    and s: "rscore = sum_list (map points_earned results)" .
  have each: "points_earned (results ! i) = (if up (results ! i) then points (svcs ! i) else 0)"
    if "i < length svcs" for i
    using that by (simp add: r round_entry_def)
  have bounds: "0 \<le> sum_list (map (\<lambda>s. points_earned (round_entry E s)) xs)
        \<and> sum_list (map (\<lambda>s. points_earned (round_entry E s)) xs) \<le> sum_list (map points xs)"
    if "\<forall>s \<in> set xs. 0 \<le> points s" for xs
    using that by (induction xs) (auto simp: round_entry_def)
  from bounds [OF nonneg] have "0 \<le> rscore" and "rscore \<le> MAX_SCORE_PER_ROUND svcs"
    by (simp_all add: s r comp_def MAX_SCORE_PER_ROUND_def)
  with r s each show ?thesis by (simp add: MAX_SCORE_PER_ROUND_def)
qed


theorem every_service_in_round_result_witness:
  "check_loop dead_env odd_services [] 0 []
     = (fst (check_loop dead_env odd_services [] 0 []),
        fst (snd (check_loop dead_env odd_services [] 0 [])),
        snd (snd (check_loop dead_env odd_services [] 0 [])))
   \<and> 0 < length odd_services
   \<and> run_check dead_env (odd_services ! 0)
       = Inl (PyExc OverflowError (lit ''Python int too large to convert to C long''))
   \<and> distinct (map svc_id odd_services)
   \<and> odd_services ! 2 \<in> set odd_services
   \<and> length (fst (check_loop dead_env odd_services [] 0 [])) = 3
   \<and> map service_id (fst (check_loop dead_env odd_services [] 0 []))
       = [lit ''wide'', lit ''ping'', lit ''smb'']
   \<and> \<not> up (fst (check_loop dead_env odd_services [] 0 []) ! 0)
   \<and> count_list (map service_id (fst (check_loop dead_env odd_services [] 0 [])))
         (svc_id (odd_services ! 2)) = 1"
proof -
  have l: "check_loop dead_env odd_services [] 0 []
     = (fst (check_loop dead_env odd_services [] 0 []),
        fst (snd (check_loop dead_env odd_services [] 0 [])),
        snd (snd (check_loop dead_env odd_services [] 0 [])))"
    by simp
  have n: "0 < length odd_services" and n3: "length odd_services = 3"
    by (simp_all add: odd_services_def)
  have r: "run_check dead_env (odd_services ! 0)
       = Inl (PyExc OverflowError (lit ''Python int too large to convert to C long''))"
    by (simp add: odd_eval)
  have d: "distinct (map svc_id odd_services)"
    by (simp add: odd_services_def mk_service_def lit_def)
  have m: "odd_services ! 2 \<in> set odd_services"
    by (simp add: odd_services_def)
  have ids: "map svc_id odd_services = [lit ''wide'', lit ''ping'', lit ''smb'']"
    by (simp add: odd_services_def mk_service_def)
  note inst = every_service_in_round_result [OF l]
  from inst n3 have a: "length (fst (check_loop dead_env odd_services [] 0 [])) = 3"
    by simp
  from inst ids have b: "map service_id (fst (check_loop dead_env odd_services [] 0 []))
       = [lit ''wide'', lit ''ping'', lit ''smb'']"
    by simp
  from inst n have "case run_check dead_env (odd_services ! 0) of
            Inl exc \<Rightarrow> \<not> up (fst (check_loop dead_env odd_services [] 0 []) ! 0)
          | Inr v \<Rightarrow> (up (fst (check_loop dead_env odd_services [] 0 []) ! 0),
                     message (fst (check_loop dead_env odd_services [] 0 []) ! 0)) = v"
    by blast
  then have c: "\<not> up (fst (check_loop dead_env odd_services [] 0 []) ! 0)"
    by (simp add: r)
  from inst d m
  have e: "count_list (map service_id (fst (check_loop dead_env odd_services [] 0 [])))
         (svc_id (odd_services ! 2)) = 1"
    by blast
  from l n r d m a b c e show ?thesis by blast
qed

lemma build_services_points:
  "\<forall>s \<in> set (build_services n). 0 \<le> points s"
  "MAX_SCORE_PER_ROUND (build_services n) = 750"
  by (simp_all add: build_services_def mk_service_def MAX_SCORE_PER_ROUND_def)

lemmas three_eval = three_services_def mk_service_def run_check_def check_tcp_def
  check_banner_def greeting_env_def send_at_once_def pop3_err_def dead_env_def
  round_entry_def round_verdict_def
  lit_def blit_def decode_utf8_replace_def utf8_step_def strip_def is_space_def Let_def

theorem round_score_sum_and_bound_witness:
  "map points three_services = [100, 50, 75]
   \<and> check_loop (greeting_env pop3_err) three_services [] 0 []
     = (fst (check_loop (greeting_env pop3_err) three_services [] 0 []),
        fst (snd (check_loop (greeting_env pop3_err) three_services [] 0 [])),
        snd (snd (check_loop (greeting_env pop3_err) three_services [] 0 [])))
   \<and> map up (fst (check_loop (greeting_env pop3_err) three_services [] 0 []))
       = [True, False, True]
   \<and> map points_earned (fst (check_loop (greeting_env pop3_err) three_services [] 0 []))
       = [100, 0, 75]
   \<and> fst (snd (check_loop (greeting_env pop3_err) three_services [] 0 [])) = 175
   \<and> MAX_SCORE_PER_ROUND three_services = 225
   \<and> fst (snd (check_loop (greeting_env pop3_err) three_services [] 0 []))
       \<le> MAX_SCORE_PER_ROUND three_services"
proof -
  have pts: "map points three_services = [100, 50, 75]"
    by (simp add: three_services_def mk_service_def)
  have p: "\<forall>s \<in> set three_services. 0 \<le> points s"
    by (simp add: three_services_def mk_service_def)
  have l: "check_loop (greeting_env pop3_err) three_services [] 0 []
     = (fst (check_loop (greeting_env pop3_err) three_services [] 0 []),
        fst (snd (check_loop (greeting_env pop3_err) three_services [] 0 [])),
        snd (snd (check_loop (greeting_env pop3_err) three_services [] 0 [])))"
    by simp
  have rs: "fst (check_loop (greeting_env pop3_err) three_services [] 0 [])
       = map (round_entry (greeting_env pop3_err)) three_services"
    by (simp add: check_loop_eq)
  have u: "map up (fst (check_loop (greeting_env pop3_err) three_services [] 0 []))
       = [True, False, True]"
    unfolding rs by (simp add: three_eval sublist_Cons_right)
  have e: "map points_earned (fst (check_loop (greeting_env pop3_err) three_services [] 0 []))
       = [100, 0, 75]"
    unfolding rs by (simp add: three_eval sublist_Cons_right)
  note inst = round_score_sum_and_bound [OF p l]
  from inst e have s: "fst (snd (check_loop (greeting_env pop3_err) three_services [] 0 [])) = 175"
    by simp
  from inst have m: "MAX_SCORE_PER_ROUND three_services = 225"
    by (simp add: three_services_def mk_service_def)
  from inst have b: "fst (snd (check_loop (greeting_env pop3_err) three_services [] 0 []))
       \<le> MAX_SCORE_PER_ROUND three_services"
    by blast
  from pts l u e s m b show ?thesis by blast
qed

subsection \<open>The result log\<close>

lemma db_wf_init: "db_wf (init_db None)"
  by (simp add: db_wf_def init_db_def)

lemma save_round_appends:
  assumes "save_round None ts d results rscore mscore = Inr d'"
  shows "check_rounds d' = check_rounds d @
           [\<lparr>row_id = Suc (rounds_seq d), timestamp = ts, row_round_score = rscore,
             max_score = mscore\<rparr>]"
    and "rounds_seq d' = Suc (rounds_seq d)"
  using assms by (auto simp: save_round_def Let_def split: prod.splits)

lemma db_wf_save_round:
  assumes wf: "db_wf d" and saved: "save_round None ts d results rscore mscore = Inr d'"
  shows "db_wf d'"
proof -
  note app = save_round_appends [OF saved]
  from wf have s: "sorted_wrt (<) (map row_id (check_rounds d))"
    and b: "\<forall>r \<in> set (check_rounds d). row_id r \<le> rounds_seq d"
    by (simp_all add: db_wf_def list_all_iff)
  from b have lt: "\<forall>r \<in> set (check_rounds d). row_id r < Suc (rounds_seq d)"
    by (simp add: le_imp_less_Suc)
  from b have le: "\<forall>r \<in> set (check_rounds d). row_id r \<le> Suc (rounds_seq d)"
    by (simp add: le_SucI)
  from s lt le show ?thesis
    by (simp add: db_wf_def app list_all_iff sorted_wrt_append)
qed

lemma order_by_id_desc_wf: "db_wf d \<Longrightarrow> order_by_id_desc (check_rounds d) = rev (check_rounds d)"
proof -
  assume "db_wf d"
  then have "sorted_wrt (<) (map row_id (check_rounds d))" by (simp add: db_wf_def)
  then have "sorted (map row_id (check_rounds d))"
    by (rule sorted_wrt_mono_rel [rotated]) simp
  then show ?thesis by (simp add: order_by_id_desc_def sort_key_id_if_sorted)
qed

lemma sql_limit_map: "sql_limit n (map f rows) = map_sum id (map f) (sql_limit n rows)"
  by (simp add: sql_limit_def take_map)

lemma rev_take_rev: "rev (take n (rev xs)) = drop (length xs - n) xs"
  by (simp add: rev_take)

text \<open>
  Claim C9. On a log whose rows are in the order in which \<open>save_round\<close> appended them,
  \<open>get_recent_rounds\<close> returns the last \<open>limit\<close> rounds, newest first, and
  \<open>get_score_history\<close> returns the columns timestamp, round score and maximal score of
  the last \<open>limit\<close> rounds, oldest first; for every limit the history is the reversal of
  these columns of the recent rounds.
\<close>

theorem recent_rounds_and_score_history:
  assumes "db_wf d"
  shows "(0 \<le> limit \<and> limit < 2 ^ 63 \<longrightarrow>
            get_recent_rounds d limit = Inr (take (nat limit) (rev (check_rounds d)))
          \<and> get_score_history d limit
              = Inr (map score_columns
                      (drop (length (check_rounds d) - nat limit) (check_rounds d))))
       \<and> get_score_history d limit
           = (case get_recent_rounds d limit of
                Inl e \<Rightarrow> Inl e
              | Inr rows \<Rightarrow> Inr (rev (map score_columns rows)))"
proof -
  note o = order_by_id_desc_wf [OF assms]
  have recent: "get_recent_rounds d limit = Inr (take (nat limit) (rev (check_rounds d)))"
    if "0 \<le> limit" and "limit < 2 ^ 63"
    using that by (simp add: get_recent_rounds_def o sql_limit_def)
  have compose: "get_score_history d limit
           = (case get_recent_rounds d limit of
                Inl e \<Rightarrow> Inl e
              | Inr rows \<Rightarrow> Inr (rev (map score_columns rows)))"
    by (simp add: get_score_history_def get_recent_rounds_def sql_limit_map rev_map
        split: sum.splits)
  have history: "get_score_history d limit
              = Inr (map score_columns
                      (drop (length (check_rounds d) - nat limit) (check_rounds d)))"
    if "0 \<le> limit" and "limit < 2 ^ 63"
  proof -
    have "rev (map score_columns (take (nat limit) (rev (check_rounds d))))
            = map score_columns (rev (take (nat limit) (rev (check_rounds d))))"
      by (rule rev_map)
    then show ?thesis
      by (simp add: compose recent [OF that] rev_take_rev)
  qed
  from recent history compose show ?thesis by blast
qed


theorem recent_rounds_and_score_history_witness:
  "db_wf two_rounds_db
   \<and> (0::int) \<le> 1 \<and> (1::int) < 2 ^ 63
   \<and> get_recent_rounds two_rounds_db 1
       = Inr [\<lparr>row_id = 2, timestamp = lit ''2024-05-01 10:01:00'', row_round_score = 100,
               max_score = 225\<rparr>]
   \<and> get_score_history two_rounds_db 1 = Inr [(lit ''2024-05-01 10:01:00'', 100, 225)]
   \<and> (0::int) \<le> 30 \<and> (30::int) < 2 ^ 63
   \<and> get_score_history two_rounds_db 30
       = Inr [(lit ''2024-05-01 10:00:00'', 175, 225), (lit ''2024-05-01 10:01:00'', 100, 225)]"
proof -
  have wf: "db_wf two_rounds_db"
    by (simp add: db_wf_def two_rounds_db_def)
  have b1: "(0::int) \<le> 1 \<and> (1::int) < 2 ^ 63" and b30: "(0::int) \<le> 30 \<and> (30::int) < 2 ^ 63"
    by simp_all
  from recent_rounds_and_score_history [OF wf, of 1] b1
  have one: "get_recent_rounds two_rounds_db 1
       = Inr [\<lparr>row_id = 2, timestamp = lit ''2024-05-01 10:01:00'', row_round_score = 100,
               max_score = 225\<rparr>]
     \<and> get_score_history two_rounds_db 1 = Inr [(lit ''2024-05-01 10:01:00'', 100, 225)]"
    by (simp add: two_rounds_db_def score_columns_def)
  from recent_rounds_and_score_history [OF wf, of 30] b30
  have all: "get_score_history two_rounds_db 30
       = Inr [(lit ''2024-05-01 10:00:00'', 175, 225), (lit ''2024-05-01 10:01:00'', 100, 225)]"
    by (simp add: two_rounds_db_def score_columns_def)
  from wf b1 b30 one all show ?thesis by blast
qed

subsection \<open>A round that cannot be stored\<close>

lemma countdown_end:
  "set_next_check_in 0 (fold set_next_check_in ns w) = set_next_check_in 0 w"
proof (induction ns arbitrary: w)
  case Nil
  show ?case by simp
next
  case (Cons n ns)
  have "set_next_check_in 0 (set_next_check_in n w) = set_next_check_in 0 w"
    by (simp add: set_next_check_in_def)
  with Cons.IH [of "set_next_check_in n w"] show ?case by simp
qed

lemma scheduler_round_eq:
  "scheduler_round SERVICES R w =
     set_next_check_in 0
       (case run_one_round SERVICES R
               (w\<lparr>state := (state w)\<lparr>is_checking := True\<rparr>,
                  logged := logged w @ [RoundStart]\<rparr>) of
          (None, w2) \<Rightarrow> w2
        | (Some exc, w2) \<Rightarrow>
            w2\<lparr>logged := logged w2 @ [RoundError (exc_str exc)],
               state := (state w2)\<lparr>is_checking := False\<rparr>\<rparr>)"
  by (simp add: scheduler_round_def Let_def countdown_end)

lemma run_one_round_not_saved:
  assumes "save_fault R = Some e"
  shows "run_one_round SERVICES R w
           = (Some e, w\<lparr>logged := logged w @ map (round_line (net R)) SERVICES\<rparr>)"
  using assms by (simp add: run_one_round_def check_loop_eq save_round_def)

lemma scheduler_round_not_saved:
  assumes "save_fault R = Some e"
  shows "scheduler_round SERVICES R w =
     \<lparr>state = (state w)\<lparr>next_check_in := 0, is_checking := False\<rparr>,
      db = db w,
      logged = logged w @ [RoundStart] @ map (round_line (net R)) SERVICES
               @ [RoundError (exc_str e)]\<rparr>"
  by (simp add: scheduler_round_eq run_one_round_not_saved [OF assms] set_next_check_in_def)

lemma scheduler_round_saved:
  assumes "save_fault R = None"
  shows "last_check_time (state (scheduler_round SERVICES R w)) = Some (clock R)"
    and "round_score (state (scheduler_round SERVICES R w))
           = sum_list (map (\<lambda>s. points_earned (round_entry (net R) s)) SERVICES)"
    and "current_results (state (scheduler_round SERVICES R w))
           = results_by_id (map (round_entry (net R)) SERVICES)"
    and "\<not> is_checking (state (scheduler_round SERVICES R w))"
  using assms
  by (simp_all add: scheduler_round_eq run_one_round_def check_loop_eq save_round_def
      Let_def set_next_check_in_def split: prod.splits option.splits)

lemma three_services_score:
  "sum_list (map (\<lambda>s. points_earned (round_entry (greeting_env pop3_err) s)) three_services)
     = 175"
  by (simp add: three_eval sublist_Cons_right)

text \<open>
  Claim C1 says that a round that cannot be stored is still published. \<open>save_round\<close> is
  called before the shared state is written and outside any handler of \<open>_run_one_round\<close>:
  in the first round of a process, with a score of 175 computed, the storage failing, the
  shared state still shows score 0, no check time and no results.
\<close>

theorem unsaved_round_counterexample:
  "save_fault failing_round = Some disk_error
   \<and> fst (snd (check_loop (net failing_round) three_services [] 0 [])) = 175
   \<and> round_score (state (scheduler_round three_services failing_round start_world)) = 0
   \<and> last_check_time (state (scheduler_round three_services failing_round start_world)) = None
   \<and> current_results (state (scheduler_round three_services failing_round start_world))
        (lit ''smb'') = None"
proof -
  have f: "save_fault failing_round = Some disk_error"
    by (simp add: failing_round_def)
  have n: "net failing_round = greeting_env pop3_err"
    by (simp add: failing_round_def)
  have s: "fst (snd (check_loop (net failing_round) three_services [] 0 [])) = 175"
    by (simp add: check_loop_eq n three_services_score)
  have w: "state (scheduler_round three_services failing_round start_world) = initial_status"
    by (simp add: scheduler_round_not_saved [OF f] start_world_def initial_status_def)
  from f s show ?thesis
    by (simp add: w initial_status_def)
qed

text \<open>
  Claim C1, amended. When \<open>save_round\<close> raises, the round is not published: last check
  time, round score and per-service results keep the values of the last published round
  and nothing is stored; the in-progress flag is cleared, the countdown runs to 0, the
  failure is only logged, and the loop goes on with the next round, which is published if
  it can be stored.
\<close>

theorem unsaved_round_keeps_snapshot:
  assumes "save_fault R = Some e"
  shows "last_check_time (state (scheduler_round SERVICES R w)) = last_check_time (state w)
    \<and> round_score (state (scheduler_round SERVICES R w)) = round_score (state w)
    \<and> current_results (state (scheduler_round SERVICES R w)) = current_results (state w)
    \<and> \<not> is_checking (state (scheduler_round SERVICES R w))
    \<and> next_check_in (state (scheduler_round SERVICES R w)) = 0
    \<and> db (scheduler_round SERVICES R w) = db w
    \<and> logged (scheduler_round SERVICES R w)
        = logged w @ [RoundStart] @ map (round_line (net R)) SERVICES
          @ [RoundError (exc_str e)]
    \<and> scheduler_loop SERVICES (R # Rs) w
        = scheduler_loop SERVICES Rs (scheduler_round SERVICES R w)
    \<and> (save_fault R' = None \<longrightarrow>
          last_check_time (state (scheduler_loop SERVICES [R, R'] w)) = Some (clock R')
        \<and> round_score (state (scheduler_loop SERVICES [R, R'] w))
            = fst (snd (check_loop (net R') SERVICES [] 0 [])))"
proof -
  have next_round: "last_check_time (state (scheduler_loop SERVICES [R, R'] w)) = Some (clock R')
        \<and> round_score (state (scheduler_loop SERVICES [R, R'] w))
            = fst (snd (check_loop (net R') SERVICES [] 0 []))"
    if "save_fault R' = None"
    by (simp add: scheduler_round_saved [OF that] check_loop_eq)
  show ?thesis
    using next_round by (simp add: scheduler_round_not_saved [OF assms])
qed

theorem unsaved_round_keeps_snapshot_witness:
  "save_fault failing_round = Some disk_error
   \<and> save_fault good_round = None
   \<and> last_check_time (state (scheduler_round three_services failing_round start_world)) = None
   \<and> round_score (state (scheduler_round three_services failing_round start_world)) = 0
   \<and> \<not> is_checking (state (scheduler_round three_services failing_round start_world))
   \<and> db (scheduler_round three_services failing_round start_world) = init_db None
   \<and> last (logged (scheduler_round three_services failing_round start_world))
       = RoundError (lit ''unable to open database file'')
   \<and> last_check_time (state (scheduler_loop three_services [failing_round, good_round]
         start_world)) = Some (lit ''2024-05-01 10:01:00'')
   \<and> round_score (state (scheduler_loop three_services [failing_round, good_round]
         start_world)) = 175"
proof -
  have f: "save_fault failing_round = Some disk_error"
    by (simp add: failing_round_def)
  have g: "save_fault good_round = None" and c: "clock good_round = lit ''2024-05-01 10:01:00''"
    and n: "net good_round = greeting_env pop3_err"
    by (simp_all add: good_round_def)
  have w: "last_check_time (state start_world) = None" "round_score (state start_world) = 0"
    "db start_world = init_db None"
    by (simp_all add: start_world_def initial_status_def)
  note inst = unsaved_round_keeps_snapshot [OF f, of three_services start_world "[]" good_round]
  from inst w
  have st: "last_check_time (state (scheduler_round three_services failing_round start_world))
        = None
     \<and> round_score (state (scheduler_round three_services failing_round start_world)) = 0
     \<and> \<not> is_checking (state (scheduler_round three_services failing_round start_world))
     \<and> db (scheduler_round three_services failing_round start_world) = init_db None"
    by simp
  from inst
  have l: "last (logged (scheduler_round three_services failing_round start_world))
       = RoundError (lit ''unable to open database file'')"
    by (simp add: disk_error_def)
  have s: "fst (snd (check_loop (net good_round) three_services [] 0 [])) = 175"
    by (simp add: check_loop_eq n three_services_score)
  from inst g c s
  have two: "last_check_time (state (scheduler_loop three_services [failing_round, good_round]
         start_world)) = Some (lit ''2024-05-01 10:01:00'')
     \<and> round_score (state (scheduler_loop three_services [failing_round, good_round]
         start_world)) = 175"
    by simp
  from f g st l two show ?thesis by blast
qed

subsection \<open>The log that the scheduler keeps\<close>

text \<open>Every turn of the scheduler leaves the log as it was or appends one round to it, so
  the log of a process that starts on an empty store is always in the order of its
  identifiers.\<close>

lemma run_one_round_db:
  "db (snd (run_one_round SERVICES R w)) =
     (case save_round (save_fault R) (save_clock R) (db w)
             (map (round_entry (net R)) SERVICES)
             (sum_list (map (\<lambda>s. points_earned (round_entry (net R) s)) SERVICES))
             (MAX_SCORE_PER_ROUND SERVICES) of
        Inl e \<Rightarrow> db w
      | Inr d \<Rightarrow> d)"
  by (simp add: run_one_round_def check_loop_eq Let_def split: sum.splits option.splits)

lemma scheduler_round_db:
  "db (scheduler_round SERVICES R w) =
     (case save_round (save_fault R) (save_clock R) (db w)
             (map (round_entry (net R)) SERVICES)
             (sum_list (map (\<lambda>s. points_earned (round_entry (net R) s)) SERVICES))
             (MAX_SCORE_PER_ROUND SERVICES) of
        Inl e \<Rightarrow> db w
      | Inr d \<Rightarrow> d)"
proof -
  have "db (scheduler_round SERVICES R w)
          = db (snd (run_one_round SERVICES R
                  (w\<lparr>state := (state w)\<lparr>is_checking := True\<rparr>,
                     logged := logged w @ [RoundStart]\<rparr>)))"
    by (simp add: scheduler_round_eq set_next_check_in_def split: prod.splits option.splits)
  then show ?thesis by (simp add: run_one_round_db split: sum.splits)
qed

lemma db_wf_scheduler_round:
  assumes "db_wf (db w)"
  shows "db_wf (db (scheduler_round SERVICES R w))"
proof (cases "save_fault R")
  case None
  then show ?thesis
    using assms
    by (auto simp: scheduler_round_db split: sum.splits intro: db_wf_save_round)
next
  case (Some e)
  then show ?thesis
    using assms by (simp add: scheduler_round_db save_round_def)
qed

lemma db_wf_scheduler_loop:
  "db_wf (db w) \<Longrightarrow> db_wf (db (scheduler_loop SERVICES Rs w))"
  by (induction Rs arbitrary: w) (simp_all add: db_wf_scheduler_round)

lemma db_wf_from_start: "db_wf (db (scheduler_loop SERVICES Rs start_world))"
  by (rule db_wf_scheduler_loop) (simp add: start_world_def db_wf_init)

end
